theory Spec2Isabelle
  imports Main "HOL-Library.AList"
begin

section \<open>Data model\<close>

text \<open>
  A metric value is Go's \<^verbatim>\<open>interface{}\<close> as the JSON parser produces it: the
  nil interface, a boolean, a number, a string, a nested \<^verbatim>\<open>map[string]interface{}\<close>
  or a \<^verbatim>\<open>[]interface{}\<close>. The transformers never look inside a scalar, so numbers
  are integers here. A nested map is an association list, because
  \<^verbatim>\<open>flattenStructure\<close> ranges over it; the list order stands for the order in which
  Go happens to visit the keys.
\<close>

datatype val =
    Null
  | Bool bool
  | Number int
  | String string
  | Object "(string \<times> val) list"
  | Array "val list"

text \<open>
  The two top-level maps of a metric are nullable: \<open>None\<close> is Go's nil map, on which
  reading and \<^verbatim>\<open>delete\<close> are allowed and assignment panics.
\<close>

type_synonym gomap = "(string \<rightharpoonup> val) option"

record Metric =
  Timestamp :: "int option"
  Metadata :: gomap
  Data :: gomap

record Container =
  Template :: "Metric option"
  Metrics :: "Metric list"

text \<open>
  \<^verbatim>\<open>Container.Metrics\<close> is a slice of pointers in the source. The model holds the
  metrics by value: the pointers are taken to be non-nil and pairwise distinct, and the
  \<^verbatim>\<open>Metadata\<close> and \<^verbatim>\<open>Data\<close> maps of a metric to be distinct objects, as the
  data model of the specification requires of a parsed container.
\<close>

record SourceDestination =
  Source :: string
  Destination :: string
  Keep :: bool

record Metadata =
  Set :: "(string \<times> val) list"
  Require :: "string list"
  ExtractFromData :: "string list"
  CopyFromData :: "SourceDestination list"
  Remove :: "string list"
  Ban :: "string list"
  Flatten :: "string list list"
  FlattenSeparator :: string
  Rename :: "SourceDestination list"
  KeepOriginal :: bool

record Data =
  Set :: "(string \<times> val) list"
  Require :: "string list"
  Flatten :: "string list list"
  FlattenSeparator :: string
  Remove :: "string list"
  Ban :: "string list"
  Rename :: "SourceDestination list"
  KeepOriginal :: bool

datatype error =
    MissingRequiredMetadata string
  | BannedMetadata string
  | MissingRequiredData string
  | BannedData string
  | DeprecatedExtractFromData
  | FailedCastToArray
  | ExtractNestedFailed

text \<open>
  A call either returns, with Go's \<^verbatim>\<open>error\<close> value (\<open>None\<close> is nil) and the state
  it has mutated so far, or panics.
\<close>

datatype 'a result = Return "error option" 'a | Panic

section \<open>Map primitives\<close>

text \<open>\<^verbatim>\<open>v, ok := m[k]\<close>: reading a nil map finds nothing.\<close>

definition index :: "gomap \<Rightarrow> string \<Rightarrow> val option" where
  "index m k = (case m of None \<Rightarrow> None | Some f \<Rightarrow> f k)"

text \<open>\<^verbatim>\<open>m[k] == nil\<close>: true for a missing key and for a key bound to the nil interface.\<close>

definition is_nil :: "val option \<Rightarrow> bool" where
  "is_nil r = (case r of None \<Rightarrow> True | Some v \<Rightarrow> v = Null)"

text \<open>\<^verbatim>\<open>if m == nil { m = make(map[string]interface{}) }\<close>\<close>

definition make_if_nil :: "gomap \<Rightarrow> (string \<rightharpoonup> val)" where
  "make_if_nil m = (case m of None \<Rightarrow> Map.empty | Some f \<Rightarrow> f)"

text \<open>\<^verbatim>\<open>delete(m, k)\<close>: a no-op on a nil map.\<close>

definition delete :: "gomap \<Rightarrow> string \<Rightarrow> gomap" where
  "delete m k = (case m of None \<Rightarrow> None | Some f \<Rightarrow> Some (f(k := None)))"

section \<open>The rule loops of \<^verbatim>\<open>Metadata.Transform\<close> and \<^verbatim>\<open>Data.Transform\<close>\<close>

text \<open>
  Both methods run the same loops, one on \<^verbatim>\<open>Metadata\<close> and one on \<^verbatim>\<open>Data\<close>;
  each loop is written once, over the map it works on.
\<close>

text \<open>\<^verbatim>\<open>Set\<close> (metadata.go 60-65, 243-248): create the map if nil, then assign.\<close>

fun set_loop :: "(string \<times> val) list \<Rightarrow> gomap \<Rightarrow> gomap" where
  "set_loop [] m = m"
| "set_loop ((key, value) # kvs) m = set_loop kvs (Some ((make_if_nil m)(key \<mapsto> value)))"

text \<open>
  \<^verbatim>\<open>Require\<close> (66-70, 252-256): the first key that is missing or nil is the error.
\<close>

fun require_loop :: "(string \<Rightarrow> error) \<Rightarrow> string list \<Rightarrow> gomap \<Rightarrow> error option" where
  "require_loop mk [] m = None"
| "require_loop mk (value # vs) m =
     (if m = None \<or> is_nil (index m value) then Some (mk value) else require_loop mk vs m)"

text \<open>\<^verbatim>\<open>ExtractFromData\<close> (71-80).\<close>

fun extract_loop :: "string list \<Rightarrow> Metric \<Rightarrow> Metric" where
  "extract_loop [] metric = metric"
| "extract_loop (extract # es) metric =
     (case index (Metric.Data metric) extract of
        None \<Rightarrow> extract_loop es metric
      | Some v \<Rightarrow>
          extract_loop es
            (metric\<lparr>Metric.Metadata := Some ((make_if_nil (Metric.Metadata metric))(extract \<mapsto> v)),
                    Metric.Data := delete (Metric.Data metric) extract\<rparr>))"

text \<open>
  \<^verbatim>\<open>CopyFromData\<close> (81-97). \<^verbatim>\<open>cpy\<close> is the loop's own copy of the rule, so the
  defaulting of its destination does not reach the configuration.
\<close>

fun copy_loop :: "SourceDestination list \<Rightarrow> Metric \<Rightarrow> Metric" where
  "copy_loop [] metric = metric"
| "copy_loop (cpy # cs) metric =
     (case index (Metric.Data metric) (Source cpy) of
        None \<Rightarrow> copy_loop cs metric
      | Some v \<Rightarrow>
          (let cpy' = (if Destination cpy = '''' then cpy\<lparr>Destination := Source cpy\<rparr> else cpy);
               metric' = metric\<lparr>Metric.Metadata :=
                            Some ((make_if_nil (Metric.Metadata metric))(Destination cpy' \<mapsto> v))\<rparr>
           in copy_loop cs
                (if \<not> Keep cpy'
                 then metric'\<lparr>Metric.Data := delete (Metric.Data metric') (Source cpy')\<rparr>
                 else metric')))"

text \<open>
  The key a \<^verbatim>\<open>CopyFromData\<close> rule writes to (lines 90-93), for the statements
  about that loop.
\<close>

definition copy_destination :: "SourceDestination \<Rightarrow> string" where
  "copy_destination cpy = (if Destination cpy = '''' then Source cpy else Destination cpy)"

text \<open>\<^verbatim>\<open>Remove\<close> (98-103, 257-262).\<close>

fun remove_loop :: "string list \<Rightarrow> gomap \<Rightarrow> gomap" where
  "remove_loop [] m = m"
| "remove_loop (value # vs) m =
     (case m of None \<Rightarrow> remove_loop vs m | Some f \<Rightarrow> remove_loop vs (delete m value))"

text \<open>\<^verbatim>\<open>Ban\<close> (104-111, 263-270): the first key bound to a non-nil value is the error.\<close>

fun ban_loop :: "(string \<Rightarrow> error) \<Rightarrow> string list \<Rightarrow> gomap \<Rightarrow> error option" where
  "ban_loop mk [] m = None"
| "ban_loop mk (value # vs) m =
     (case m of
        None \<Rightarrow> ban_loop mk vs m
      | Some f \<Rightarrow> if \<not> is_nil (index m value) then Some (mk value) else ban_loop mk vs m)"

text \<open>
  \<^verbatim>\<open>Rename\<close> (112-127, 271-282). The destination is used as it is configured. The
  \<^verbatim>\<open>fmt.Printf\<close> calls of the metadata variant write to standard output only and are
  left out.
\<close>

fun rename_loop :: "SourceDestination list \<Rightarrow> gomap \<Rightarrow> gomap" where
  "rename_loop [] m = m"
| "rename_loop (rename # rs) m =
     (case m of
        None \<Rightarrow> rename_loop rs m
      | Some f \<Rightarrow>
          (case f (Source rename) of
             None \<Rightarrow> rename_loop rs m
           | Some v \<Rightarrow>
               (let m' = Some (f(Destination rename \<mapsto> v))
                in rename_loop rs (if \<not> Keep rename then delete m' (Source rename) else m'))))"

section \<open>\<^verbatim>\<open>flattenStructure\<close>\<close>

text \<open>\<^verbatim>\<open>fmt.Sprintf("%d", i)\<close> for an index of a slice.\<close>

fun itoa :: "nat \<Rightarrow> string" where
  "itoa n = (if n < 10 then [''0123456789'' ! n]
             else itoa (n div 10) @ [''0123456789'' ! (n mod 10)])"

declare itoa.simps [simp del]

text \<open>
  Modelled from the spec: \<^verbatim>\<open>skogul.ExtractNestedObject\<close> is not among the source
  files. Section 4.3, step 1: resolve \<open>obj = map[p0][p1]\<dots>[p(k-1)]\<close>, the parent of the
  leaf; an intermediate that is missing or is not a mapping is a failure. With a path of
  one key the parent is the map itself. \<^verbatim>\<open>flattenStructure\<close> never passes an empty
  path (it has panicked before).
\<close>

fun ExtractNestedObject :: "(string \<rightharpoonup> val) \<Rightarrow> string list \<Rightarrow> error + (string \<rightharpoonup> val)" where
  "ExtractNestedObject object [] = Inr object"
| "ExtractNestedObject object [k] = Inr object"
| "ExtractNestedObject object (k # ks) =
     (case object k of
        Some (Object next) \<Rightarrow> ExtractNestedObject (map_of next) ks
      | _ \<Rightarrow> Inl ExtractNestedFailed)"

text \<open>
  Lines 148-152: the prefix is the path joined with the separator.
\<close>

fun join_path :: "string \<Rightarrow> string \<Rightarrow> string list \<Rightarrow> string" where
  "join_path nestedObjectPath separator [] = nestedObjectPath"
| "join_path nestedObjectPath separator (p # ps) =
     join_path (nestedObjectPath @ separator @ p) separator ps"

text \<open>
  Lines 178-195: an array becomes a fresh map. An element that is a map contributes one
  entry per key, named by the index, the separator and the key; any other element is
  stored under the index alone.
\<close>

fun array_elem_loop :: "nat \<Rightarrow> string \<Rightarrow> (string \<times> val) list \<Rightarrow> (string \<times> val) list
    \<Rightarrow> (string \<times> val) list" where
  "array_elem_loop i separator [] nestedObj = nestedObj"
| "array_elem_loop i separator ((key, v) # obj) nestedObj =
     array_elem_loop i separator obj (AList.update (itoa i @ separator @ key) v nestedObj)"

fun array_loop :: "nat \<Rightarrow> string \<Rightarrow> val list \<Rightarrow> (string \<times> val) list \<Rightarrow> (string \<times> val) list" where
  "array_loop i separator [] nestedObj = nestedObj"
| "array_loop i separator (v # vs) nestedObj =
     array_loop (Suc i) separator vs
       (case v of
          Object obj \<Rightarrow> array_elem_loop i separator obj nestedObj
        | _ \<Rightarrow> AList.update (itoa i) v nestedObj)"

text \<open>
  Lines 198-214, on the map chosen by \<^verbatim>\<open>isData\<close>: every entry is written under
  prefix, separator and key, and without \<^verbatim>\<open>KeepOriginal\<close> (here \<open>keepOriginal\<close>) the key named by the prefix
  is deleted after each write. Writing to a nil map panics.
\<close>

fun flatten_write :: "(string \<times> val) list \<Rightarrow> string \<Rightarrow> string \<Rightarrow> bool \<Rightarrow> gomap \<Rightarrow> gomap result" where
  "flatten_write [] nestedObjectPath separator keepOriginal m = Return None m"
| "flatten_write ((key, v) # kvs) nestedObjectPath separator keepOriginal m =
     (case m of
        None \<Rightarrow> Panic
      | Some f \<Rightarrow>
          (let m' = Some (f(nestedObjectPath @ separator @ key \<mapsto> v))
           in flatten_write kvs nestedObjectPath separator keepOriginal
                (if keepOriginal then m' else delete m' nestedObjectPath)))"

definition flattenStructure ::
    "string list \<Rightarrow> string \<Rightarrow> bool \<Rightarrow> Metric \<Rightarrow> bool \<Rightarrow> Metric result" where
  "flattenStructure nestedPath separator keepOriginal metric isData =
     (case nestedPath of
        [] \<Rightarrow> Panic
      | p0 # ps \<Rightarrow>
          (let nestedObjectPath =
                 (if separator \<noteq> ''drop'' \<and> length nestedPath > 1
                  then join_path p0 separator ps else p0);
               nestedObjectPath' = (if separator = ''drop'' then '''' else nestedObjectPath);
               separator' = (if separator = ''drop'' then '''' else separator);
               target = (if isData then Metric.Data metric else Metric.Metadata metric)
           in case ExtractNestedObject (make_if_nil target) nestedPath of
                Inl err \<Rightarrow> Return (Some err) metric
              | Inr obj \<Rightarrow>
                  (let written =
                         (case obj (last nestedPath) of
                            Some (Object nestedObj) \<Rightarrow>
                              flatten_write nestedObj nestedObjectPath' separator' keepOriginal target
                          | Some (Array nestedObjArray) \<Rightarrow>
                              flatten_write (array_loop 0 separator' nestedObjArray [])
                                nestedObjectPath' separator' keepOriginal target
                          | _ \<Rightarrow> Return (Some FailedCastToArray) target)
                   in case written of
                        Panic \<Rightarrow> Panic
                      | Return e m \<Rightarrow>
                          Return e (if isData then metric\<lparr>Metric.Data := m\<rparr>
                                    else metric\<lparr>Metric.Metadata := m\<rparr>))))"

text \<open>
  The \<^verbatim>\<open>Flatten\<close> loop of both transformers (129-131, 249-251) discards the error
  of every call: \<^verbatim>\<open>_ = flattenStructure(...)\<close>.
\<close>

fun flatten_loop :: "string list list \<Rightarrow> string \<Rightarrow> bool \<Rightarrow> Metric \<Rightarrow> bool \<Rightarrow> Metric result" where
  "flatten_loop [] separator keepOriginal metric isData = Return None metric"
| "flatten_loop (nestedPath # nps) separator keepOriginal metric isData =
     (case flattenStructure nestedPath separator keepOriginal metric isData of
        Panic \<Rightarrow> Panic
      | Return e metric' \<Rightarrow> flatten_loop nps separator keepOriginal metric' isData)"

section \<open>The transformers\<close>

text \<open>The body of \<^verbatim>\<open>for mi := range c.Metrics\<close> in \<^verbatim>\<open>Metadata.Transform\<close>.\<close>

definition Metadata_Transform_metric :: "Metadata \<Rightarrow> Metric \<Rightarrow> Metric result" where
  "Metadata_Transform_metric meta metric =
     (let m1 = metric\<lparr>Metric.Metadata := set_loop (Metadata.Set meta) (Metric.Metadata metric)\<rparr>
      in case require_loop MissingRequiredMetadata (Metadata.Require meta) (Metric.Metadata m1) of
           Some e \<Rightarrow> Return (Some e) m1
         | None \<Rightarrow>
             (let m2 = extract_loop (ExtractFromData meta) m1;
                  m3 = copy_loop (CopyFromData meta) m2;
                  m4 = m3\<lparr>Metric.Metadata := remove_loop (Metadata.Remove meta) (Metric.Metadata m3)\<rparr>
              in case ban_loop BannedMetadata (Metadata.Ban meta) (Metric.Metadata m4) of
                   Some e \<Rightarrow> Return (Some e) m4
                 | None \<Rightarrow>
                     (let m5 = m4\<lparr>Metric.Metadata :=
                                    rename_loop (Metadata.Rename meta) (Metric.Metadata m4)\<rparr>
                      in flatten_loop (Metadata.Flatten meta) (Metadata.FlattenSeparator meta)
                           (Metadata.KeepOriginal meta) m5 False)))"

text \<open>The body of \<^verbatim>\<open>for mi := range c.Metrics\<close> in \<^verbatim>\<open>Data.Transform\<close>.\<close>

definition Data_Transform_metric :: "Data \<Rightarrow> Metric \<Rightarrow> Metric result" where
  "Data_Transform_metric data metric =
     (let m1 = metric\<lparr>Metric.Data := set_loop (Data.Set data) (Metric.Data metric)\<rparr>
      in case flatten_loop (Data.Flatten data) (Data.FlattenSeparator data)
                (Data.KeepOriginal data) m1 True of
           Panic \<Rightarrow> Panic
         | Return e m2 \<Rightarrow>
             (case require_loop MissingRequiredData (Data.Require data) (Metric.Data m2) of
                Some e \<Rightarrow> Return (Some e) m2
              | None \<Rightarrow>
                  (let m3 = m2\<lparr>Metric.Data := remove_loop (Data.Remove data) (Metric.Data m2)\<rparr>
                   in case ban_loop BannedData (Data.Ban data) (Metric.Data m3) of
                        Some e \<Rightarrow> Return (Some e) m3
                      | None \<Rightarrow>
                          Return None
                            (m3\<lparr>Metric.Data := rename_loop (Data.Rename data) (Metric.Data m3)\<rparr>))))"

text \<open>
  The loop over the metrics: an error returns at once, with the metrics before it
  transformed, the failing one as far as it got and the rest untouched.
\<close>

fun metrics_loop :: "(Metric \<Rightarrow> Metric result) \<Rightarrow> Metric list \<Rightarrow> Metric list result" where
  "metrics_loop body [] = Return None []"
| "metrics_loop body (metric # ms) =
     (case body metric of
        Panic \<Rightarrow> Panic
      | Return (Some e) metric' \<Rightarrow> Return (Some e) (metric' # ms)
      | Return None metric' \<Rightarrow>
          (case metrics_loop body ms of
             Panic \<Rightarrow> Panic
           | Return e ms' \<Rightarrow> Return e (metric' # ms')))"

text \<open>
  \<^verbatim>\<open>Transform\<close> has a pointer receiver: the state it returns is the transformer
  together with the container.
\<close>

definition Metadata_Transform :: "Metadata \<Rightarrow> Container \<Rightarrow> (Metadata \<times> Container) result" where
  "Metadata_Transform meta c =
     (case metrics_loop (Metadata_Transform_metric meta) (Metrics c) of
        Panic \<Rightarrow> Panic
      | Return e ms \<Rightarrow> Return e (meta, c\<lparr>Metrics := ms\<rparr>))"

definition Data_Transform :: "Data \<Rightarrow> Container \<Rightarrow> (Data \<times> Container) result" where
  "Data_Transform data c =
     (let data' = (if Data.FlattenSeparator data = ''''
                   then data\<lparr>Data.FlattenSeparator := ''__''\<rparr> else data)
      in case metrics_loop (Data_Transform_metric data') (Metrics c) of
           Panic \<Rightarrow> Panic
         | Return e ms \<Rightarrow> Return e (data', c\<lparr>Metrics := ms\<rparr>))"

text \<open>\<^verbatim>\<open>Metadata.Deprecated\<close> (136-141), the separate deprecation check.\<close>

definition Deprecated :: "Metadata \<Rightarrow> error option" where
  "Deprecated meta =
     (if length (ExtractFromData meta) > 0 then Some DeprecatedExtractFromData else None)"

section \<open>The transformers with the receiver in the state\<close>

text \<open>
  Both \<^verbatim>\<open>Transform\<close> methods have a pointer receiver, so every statement of their
  loops can read and assign the fields of the transformer. The definitions of this
  section embed the two methods once more, statement by statement, with the transformer
  as a component of the state that each loop takes and returns: the state of a loop of
  \<^verbatim>\<open>Metadata.Transform\<close> is the pair of \<^verbatim>\<open>*meta\<close> and \<^verbatim>\<open>*c.Metrics[mi]\<close>,
  that of \<^verbatim>\<open>Data.Transform\<close> the pair of \<^verbatim>\<open>*data\<close> and \<^verbatim>\<open>*c.Metrics[mi]\<close>.
  A \<^verbatim>\<open>range\<close> expression is evaluated once, when its loop starts, from the
  transformer as it is then; the range variable is a copy of the element. The lemmas
  \<open>Metadata_Transform_rcv_eq\<close> and \<open>Data_Transform_rcv_eq\<close> show that these definitions
  and the ones above compute the same result.
\<close>

text \<open>\<^verbatim>\<open>Metadata.Transform\<close>, lines 60-65.\<close>

fun Metadata_Set_rcv :: "(string \<times> val) list \<Rightarrow> Metadata \<times> Metric \<Rightarrow> Metadata \<times> Metric" where
  "Metadata_Set_rcv [] st = st"
| "Metadata_Set_rcv ((key, value) # kvs) (meta, metric) =
     Metadata_Set_rcv kvs
       (meta, metric\<lparr>Metric.Metadata :=
                 Some ((make_if_nil (Metric.Metadata metric))(key \<mapsto> value))\<rparr>)"

text \<open>Lines 66-70; the error is returned with the state as it is.\<close>

fun Metadata_Require_rcv :: "string list \<Rightarrow> Metadata \<times> Metric
    \<Rightarrow> error option \<times> Metadata \<times> Metric" where
  "Metadata_Require_rcv [] st = (None, st)"
| "Metadata_Require_rcv (value # vs) (meta, metric) =
     (if Metric.Metadata metric = None \<or> is_nil (index (Metric.Metadata metric) value)
      then (Some (MissingRequiredMetadata value), meta, metric)
      else Metadata_Require_rcv vs (meta, metric))"

text \<open>Lines 71-80.\<close>

fun Metadata_ExtractFromData_rcv :: "string list \<Rightarrow> Metadata \<times> Metric \<Rightarrow> Metadata \<times> Metric" where
  "Metadata_ExtractFromData_rcv [] st = st"
| "Metadata_ExtractFromData_rcv (extract # es) (meta, metric) =
     (case index (Metric.Data metric) extract of
        None \<Rightarrow> Metadata_ExtractFromData_rcv es (meta, metric)
      | Some v \<Rightarrow>
          Metadata_ExtractFromData_rcv es
            (meta, metric\<lparr>Metric.Metadata :=
                      Some ((make_if_nil (Metric.Metadata metric))(extract \<mapsto> v)),
                    Metric.Data := delete (Metric.Data metric) extract\<rparr>))"

text \<open>
  Lines 82-96, the body of the \<^verbatim>\<open>CopyFromData\<close> loop. \<^verbatim>\<open>cpy\<close> is the range
  variable; the assignment \<^verbatim>\<open>cpy.Destination = cpy.Source\<close> (line 91) changes this
  variable, and the body returns it next to the state.
\<close>

definition CopyFromData_body_rcv :: "SourceDestination \<Rightarrow> Metadata \<times> Metric
    \<Rightarrow> SourceDestination \<times> Metadata \<times> Metric" where
  "CopyFromData_body_rcv cpy st =
     (case st of (meta, metric) \<Rightarrow>
        (case index (Metric.Data metric) (Source cpy) of
           None \<Rightarrow> (cpy, meta, metric)
         | Some v \<Rightarrow>
             (let metric1 = metric\<lparr>Metric.Metadata := Some (make_if_nil (Metric.Metadata metric))\<rparr>;
                  cpy1 = (if Destination cpy = '''' then cpy\<lparr>Destination := Source cpy\<rparr> else cpy);
                  metric2 = metric1\<lparr>Metric.Metadata :=
                              Some ((make_if_nil (Metric.Metadata metric1))(Destination cpy1 \<mapsto> v))\<rparr>
              in (cpy1, meta,
                  if \<not> Keep cpy1
                  then metric2\<lparr>Metric.Data := delete (Metric.Data metric2) (Source cpy1)\<rparr>
                  else metric2))))"

text \<open>Lines 81-97: the next iteration starts from a fresh copy of the next element.\<close>

fun Metadata_CopyFromData_rcv :: "SourceDestination list \<Rightarrow> Metadata \<times> Metric
    \<Rightarrow> Metadata \<times> Metric" where
  "Metadata_CopyFromData_rcv [] st = st"
| "Metadata_CopyFromData_rcv (cpy # cs) st =
     (case CopyFromData_body_rcv cpy st of (cpy', st') \<Rightarrow> Metadata_CopyFromData_rcv cs st')"

text \<open>Lines 98-103.\<close>

fun Metadata_Remove_rcv :: "string list \<Rightarrow> Metadata \<times> Metric \<Rightarrow> Metadata \<times> Metric" where
  "Metadata_Remove_rcv [] st = st"
| "Metadata_Remove_rcv (value # vs) (meta, metric) =
     (if Metric.Metadata metric = None then Metadata_Remove_rcv vs (meta, metric)
      else Metadata_Remove_rcv vs
             (meta, metric\<lparr>Metric.Metadata := delete (Metric.Metadata metric) value\<rparr>))"

text \<open>Lines 104-111.\<close>

fun Metadata_Ban_rcv :: "string list \<Rightarrow> Metadata \<times> Metric
    \<Rightarrow> error option \<times> Metadata \<times> Metric" where
  "Metadata_Ban_rcv [] st = (None, st)"
| "Metadata_Ban_rcv (value # vs) (meta, metric) =
     (if Metric.Metadata metric = None then Metadata_Ban_rcv vs (meta, metric)
      else if \<not> is_nil (index (Metric.Metadata metric) value)
      then (Some (BannedMetadata value), meta, metric)
      else Metadata_Ban_rcv vs (meta, metric))"

text \<open>Lines 112-127.\<close>

fun Metadata_Rename_rcv :: "SourceDestination list \<Rightarrow> Metadata \<times> Metric
    \<Rightarrow> Metadata \<times> Metric" where
  "Metadata_Rename_rcv [] st = st"
| "Metadata_Rename_rcv (rename # rs) (meta, metric) =
     (case Metric.Metadata metric of
        None \<Rightarrow> Metadata_Rename_rcv rs (meta, metric)
      | Some f \<Rightarrow>
          (case f (Source rename) of
             None \<Rightarrow> Metadata_Rename_rcv rs (meta, metric)
           | Some v \<Rightarrow>
               (let metric1 = metric\<lparr>Metric.Metadata := Some (f(Destination rename \<mapsto> v))\<rparr>
                in Metadata_Rename_rcv rs
                     (meta, if \<not> Keep rename
                            then metric1\<lparr>Metric.Metadata :=
                                   delete (Metric.Metadata metric1) (Source rename)\<rparr>
                            else metric1))))"

text \<open>
  Lines 129-131: every call reads \<^verbatim>\<open>meta.FlattenSeparator\<close> and
  \<^verbatim>\<open>meta.KeepOriginal\<close> from the transformer and passes them by value.
\<close>

fun Metadata_Flatten_rcv :: "string list list \<Rightarrow> Metadata \<times> Metric
    \<Rightarrow> (Metadata \<times> Metric) result" where
  "Metadata_Flatten_rcv [] st = Return None st"
| "Metadata_Flatten_rcv (nestedPath # nps) (meta, metric) =
     (case flattenStructure nestedPath (Metadata.FlattenSeparator meta)
             (Metadata.KeepOriginal meta) metric False of
        Panic \<Rightarrow> Panic
      | Return e metric' \<Rightarrow> Metadata_Flatten_rcv nps (meta, metric'))"

text \<open>Lines 60-131, the body of the loop over the metrics.\<close>

definition Metadata_body_rcv :: "Metadata \<times> Metric \<Rightarrow> (Metadata \<times> Metric) result" where
  "Metadata_body_rcv st0 =
     (let st1 = Metadata_Set_rcv (Metadata.Set (fst st0)) st0
      in case Metadata_Require_rcv (Metadata.Require (fst st1)) st1 of
           (Some e, st2) \<Rightarrow> Return (Some e) st2
         | (None, st2) \<Rightarrow>
             (let st3 = Metadata_ExtractFromData_rcv (ExtractFromData (fst st2)) st2;
                  st4 = Metadata_CopyFromData_rcv (CopyFromData (fst st3)) st3;
                  st5 = Metadata_Remove_rcv (Metadata.Remove (fst st4)) st4
              in case Metadata_Ban_rcv (Metadata.Ban (fst st5)) st5 of
                   (Some e, st6) \<Rightarrow> Return (Some e) st6
                 | (None, st6) \<Rightarrow>
                     (let st7 = Metadata_Rename_rcv (Metadata.Rename (fst st6)) st6
                      in Metadata_Flatten_rcv (Metadata.Flatten (fst st7)) st7)))"

text \<open>Lines 59-133.\<close>

fun Metadata_Metrics_rcv :: "Metric list \<Rightarrow> Metadata \<Rightarrow> (Metadata \<times> Metric list) result" where
  "Metadata_Metrics_rcv [] meta = Return None (meta, [])"
| "Metadata_Metrics_rcv (metric # ms) meta =
     (case Metadata_body_rcv (meta, metric) of
        Panic \<Rightarrow> Panic
      | Return (Some e) (meta', metric') \<Rightarrow> Return (Some e) (meta', metric' # ms)
      | Return None (meta', metric') \<Rightarrow>
          (case Metadata_Metrics_rcv ms meta' of
             Panic \<Rightarrow> Panic
           | Return e (meta'', ms') \<Rightarrow> Return e (meta'', metric' # ms')))"

text \<open>Lines 58-134.\<close>

definition Metadata_Transform_rcv :: "Metadata \<Rightarrow> Container \<Rightarrow> (Metadata \<times> Container) result" where
  "Metadata_Transform_rcv meta c =
     (case Metadata_Metrics_rcv (Metrics c) meta of
        Panic \<Rightarrow> Panic
      | Return e (meta', ms) \<Rightarrow> Return e (meta', c\<lparr>Metrics := ms\<rparr>))"

text \<open>\<^verbatim>\<open>Data.Transform\<close>, lines 243-248.\<close>

fun Data_Set_rcv :: "(string \<times> val) list \<Rightarrow> Data \<times> Metric \<Rightarrow> Data \<times> Metric" where
  "Data_Set_rcv [] st = st"
| "Data_Set_rcv ((key, value) # kvs) (data, metric) =
     Data_Set_rcv kvs
       (data, metric\<lparr>Metric.Data := Some ((make_if_nil (Metric.Data metric))(key \<mapsto> value))\<rparr>)"

text \<open>Lines 249-251.\<close>

fun Data_Flatten_rcv :: "string list list \<Rightarrow> Data \<times> Metric \<Rightarrow> (Data \<times> Metric) result" where
  "Data_Flatten_rcv [] st = Return None st"
| "Data_Flatten_rcv (nestedPath # nps) (data, metric) =
     (case flattenStructure nestedPath (Data.FlattenSeparator data)
             (Data.KeepOriginal data) metric True of
        Panic \<Rightarrow> Panic
      | Return e metric' \<Rightarrow> Data_Flatten_rcv nps (data, metric'))"

text \<open>Lines 252-256.\<close>

fun Data_Require_rcv :: "string list \<Rightarrow> Data \<times> Metric \<Rightarrow> error option \<times> Data \<times> Metric" where
  "Data_Require_rcv [] st = (None, st)"
| "Data_Require_rcv (value # vs) (data, metric) =
     (if Metric.Data metric = None \<or> is_nil (index (Metric.Data metric) value)
      then (Some (MissingRequiredData value), data, metric)
      else Data_Require_rcv vs (data, metric))"

text \<open>Lines 257-262.\<close>

fun Data_Remove_rcv :: "string list \<Rightarrow> Data \<times> Metric \<Rightarrow> Data \<times> Metric" where
  "Data_Remove_rcv [] st = st"
| "Data_Remove_rcv (value # vs) (data, metric) =
     (if Metric.Data metric = None then Data_Remove_rcv vs (data, metric)
      else Data_Remove_rcv vs (data, metric\<lparr>Metric.Data := delete (Metric.Data metric) value\<rparr>))"

text \<open>Lines 263-270.\<close>

fun Data_Ban_rcv :: "string list \<Rightarrow> Data \<times> Metric \<Rightarrow> error option \<times> Data \<times> Metric" where
  "Data_Ban_rcv [] st = (None, st)"
| "Data_Ban_rcv (value # vs) (data, metric) =
     (if Metric.Data metric = None then Data_Ban_rcv vs (data, metric)
      else if \<not> is_nil (index (Metric.Data metric) value)
      then (Some (BannedData value), data, metric)
      else Data_Ban_rcv vs (data, metric))"

text \<open>Lines 271-282.\<close>

fun Data_Rename_rcv :: "SourceDestination list \<Rightarrow> Data \<times> Metric \<Rightarrow> Data \<times> Metric" where
  "Data_Rename_rcv [] st = st"
| "Data_Rename_rcv (rename # rs) (data, metric) =
     (case Metric.Data metric of
        None \<Rightarrow> Data_Rename_rcv rs (data, metric)
      | Some f \<Rightarrow>
          (case f (Source rename) of
             None \<Rightarrow> Data_Rename_rcv rs (data, metric)
           | Some v \<Rightarrow>
               (let metric1 = metric\<lparr>Metric.Data := Some (f(Destination rename \<mapsto> v))\<rparr>
                in Data_Rename_rcv rs
                     (data, if \<not> Keep rename
                            then metric1\<lparr>Metric.Data := delete (Metric.Data metric1) (Source rename)\<rparr>
                            else metric1))))"

text \<open>Lines 243-282, the body of the loop over the metrics.\<close>

definition Data_body_rcv :: "Data \<times> Metric \<Rightarrow> (Data \<times> Metric) result" where
  "Data_body_rcv st0 =
     (let st1 = Data_Set_rcv (Data.Set (fst st0)) st0
      in case Data_Flatten_rcv (Data.Flatten (fst st1)) st1 of
           Panic \<Rightarrow> Panic
         | Return e st2 \<Rightarrow>
             (case Data_Require_rcv (Data.Require (fst st2)) st2 of
                (Some e, st3) \<Rightarrow> Return (Some e) st3
              | (None, st3) \<Rightarrow>
                  (let st4 = Data_Remove_rcv (Data.Remove (fst st3)) st3
                   in case Data_Ban_rcv (Data.Ban (fst st4)) st4 of
                        (Some e, st5) \<Rightarrow> Return (Some e) st5
                      | (None, st5) \<Rightarrow>
                          Return None (Data_Rename_rcv (Data.Rename (fst st5)) st5))))"

text \<open>Lines 242-284.\<close>

fun Data_Metrics_rcv :: "Metric list \<Rightarrow> Data \<Rightarrow> (Data \<times> Metric list) result" where
  "Data_Metrics_rcv [] data = Return None (data, [])"
| "Data_Metrics_rcv (metric # ms) data =
     (case Data_body_rcv (data, metric) of
        Panic \<Rightarrow> Panic
      | Return (Some e) (data', metric') \<Rightarrow> Return (Some e) (data', metric' # ms)
      | Return None (data', metric') \<Rightarrow>
          (case Data_Metrics_rcv ms data' of
             Panic \<Rightarrow> Panic
           | Return e (data'', ms') \<Rightarrow> Return e (data'', metric' # ms')))"

text \<open>
  Lines 236-285. The first statement assigns the default separator to the field of the
  transformer (lines 238-240).
\<close>

definition Data_Transform_rcv :: "Data \<Rightarrow> Container \<Rightarrow> (Data \<times> Container) result" where
  "Data_Transform_rcv data c =
     (let data1 = (if Data.FlattenSeparator data = ''''
                   then data\<lparr>Data.FlattenSeparator := ''__''\<rparr> else data)
      in case Data_Metrics_rcv (Metrics c) data1 of
           Panic \<Rightarrow> Panic
         | Return e (data', ms) \<Rightarrow> Return e (data', c\<lparr>Metrics := ms\<rparr>))"

section \<open>Example inputs\<close>

text \<open>Concrete metrics and configurations on which the theorems below are run.\<close>

definition metric_x :: Metric where
  "metric_x = \<lparr>Timestamp = None, Metadata = None, Data = Some [''x'' \<mapsto> Number 1]\<rparr>"

definition require_host :: Metadata where
  "require_host = \<lparr>Metadata.Set = [], Require = [''host''], ExtractFromData = [],
     CopyFromData = [], Remove = [], Ban = [], Flatten = [[''x'']], FlattenSeparator = '''',
     Rename = [], KeepOriginal = False\<rparr>"

definition ban_x :: Data where
  "ban_x = \<lparr>Data.Set = [], Require = [], Flatten = [[''x'']], FlattenSeparator = ''_'',
     Remove = [], Ban = [''x''], Rename = [], KeepOriginal = False\<rparr>"

definition metric_ab :: Metric where
  "metric_ab = \<lparr>Timestamp = None, Metadata = None,
     Data = Some [''a'' \<mapsto> Object [(''b'', Number 1), (''c'', Number 2)]]\<rparr>"

definition flatten_a :: Data where
  "flatten_a = \<lparr>Data.Set = [], Require = [], Flatten = [[''a'']], FlattenSeparator = '''',
     Remove = [], Ban = [], Rename = [], KeepOriginal = False\<rparr>"

text \<open>The zero values of the two transformer structs: no rule configured.\<close>

definition Metadata_zero :: Metadata where
  "Metadata_zero = \<lparr>Metadata.Set = [], Require = [], ExtractFromData = [], CopyFromData = [],
     Remove = [], Ban = [], Flatten = [], FlattenSeparator = '''', Rename = [],
     KeepOriginal = False\<rparr>"

definition Data_zero :: Data where
  "Data_zero = \<lparr>Data.Set = [], Require = [], Flatten = [], FlattenSeparator = '''',
     Remove = [], Ban = [], Rename = [], KeepOriginal = False\<rparr>"

definition metric_host :: Metric where
  "metric_host = \<lparr>Timestamp = None, Metadata = Some [''host'' \<mapsto> String ''h1''],
     Data = Some [''host'' \<mapsto> String ''h1'', ''v'' \<mapsto> Number 42]\<rparr>"

definition metric_null :: Metric where
  "metric_null = \<lparr>Timestamp = None, Metadata = Some [''host'' \<mapsto> Null], Data = None\<rparr>"

definition metric_meta_ab :: Metric where
  "metric_meta_ab = \<lparr>Timestamp = None,
     Metadata = Some [''a'' \<mapsto> Object [(''b'', Number 1)]], Data = None\<rparr>"

definition require_ban :: Metadata where
  "require_ban = Metadata_zero\<lparr>Metadata.Set := [(''site'', String ''A'')],
     Metadata.Require := [''host'', ''site''], Metadata.Ban := [''secret'']\<rparr>"

definition copy_host :: Metadata where
  "copy_host = Metadata_zero\<lparr>Metadata.Set := [(''site'', String ''A'')],
     Metadata.Require := [''site''],
     CopyFromData := [\<lparr>Source = ''host'', Destination = ''node'', Keep = False\<rparr>],
     Metadata.Ban := [''secret'']\<rparr>"

definition metric_axy :: Metric where
  "metric_axy = \<lparr>Timestamp = None, Metadata = None,
     Data = Some [''a'' \<mapsto> Array [Object [(''x'', Number 1)], Object [(''y'', Number 2)]]]\<rparr>"

definition copy_default :: Metadata where
  "copy_default = Metadata_zero\<lparr>CopyFromData :=
     [\<lparr>Source = ''host'', Destination = '''', Keep = False\<rparr>]\<rparr>"

section \<open>Basic facts\<close>

text \<open>Facts about the primitives and the loops that the theorems on the claims share.\<close>

lemma index_simps [simp]:
  "index None k = None" "index (Some f) k = f k"
  by (simp_all add: index_def)

lemma is_nil_simps [simp]:
  "is_nil None" "is_nil (Some v) = (v = Null)"
  by (simp_all add: is_nil_def)

lemma make_if_nil_simps [simp]:
  "make_if_nil None = Map.empty" "make_if_nil (Some f) = f"
  by (simp_all add: make_if_nil_def)

lemma go_delete_simps [simp]:
  "delete None k = None" "delete (Some f) k = Some (f(k := None))"
  by (simp_all add: delete_def)

lemma flatten_write_Some:
  "\<exists>g. flatten_write kvs p sep keep (Some f) = Return None (Some g)"
  by (induction kvs arbitrary: f) (auto simp: Let_def)

lemma flatten_write_no_panic [simp]: "flatten_write kvs p sep keep (Some f) \<noteq> Panic"
  using flatten_write_Some [of kvs p sep keep f] by auto

lemma ExtractNestedObject_top:
  "ExtractNestedObject (make_if_nil m) (k # k' # ks) = Inr obj \<Longrightarrow> m \<noteq> None"
  by (cases m) (auto split: option.splits val.splits)

lemma ExtractNestedObject_nil:
  "ExtractNestedObject (make_if_nil m) (p0 # ps) = Inr obj \<Longrightarrow> obj (last (p0 # ps)) = Some v
    \<Longrightarrow> m \<noteq> None"
proof (cases ps)
  case Nil
  assume "ExtractNestedObject (make_if_nil m) (p0 # ps) = Inr obj" "obj (last (p0 # ps)) = Some v"
  with Nil show ?thesis by (cases m) auto
next
  case (Cons k' ks)
  assume "ExtractNestedObject (make_if_nil m) (p0 # ps) = Inr obj"
  with Cons show ?thesis using ExtractNestedObject_top by blast
qed

lemma flattenStructure_no_panic:
  assumes "nestedPath \<noteq> []"
  shows "flattenStructure nestedPath separator keep metric isData \<noteq> Panic"
proof -
  obtain p0 ps where np: "nestedPath = p0 # ps" using assms by (cases nestedPath) auto
  let ?target = "if isData then Metric.Data metric else Metric.Metadata metric"
  show ?thesis
  proof (cases "ExtractNestedObject (make_if_nil ?target) nestedPath")
    case (Inl err)
    then show ?thesis by (simp add: flattenStructure_def np)
  next
    case (Inr obj)
    show ?thesis
    proof (cases "obj (last nestedPath)")
      case None
      with Inr show ?thesis by (simp add: flattenStructure_def np)
    next
      case (Some v)
      with Inr np obtain f where f: "?target = Some f"
        using ExtractNestedObject_nil [of ?target p0 ps obj v] by auto
      from Inr Some f show ?thesis
        unfolding flattenStructure_def np Let_def
        by (cases v) (simp_all del: flatten_write.simps split: result.splits if_splits)
    qed
  qed
qed

lemma metrics_loop_length:
  "metrics_loop body ms = Return e ms' \<Longrightarrow> length ms' = length ms"
  by (induction ms arbitrary: ms' e) (auto split: result.splits option.splits)

lemma metrics_loop_success:
  "metrics_loop body ms = Return None ms' \<Longrightarrow> i < length ms
    \<Longrightarrow> body (ms ! i) = Return None (ms' ! i)"
proof (induction ms arbitrary: ms' i)
  case Nil
  then show ?case by simp
next
  case (Cons m ms)
  then show ?case
    by (cases i) (auto split: result.splits option.splits)
qed

lemma metrics_loop_success_set:
  assumes "metrics_loop body ms = Return None ms'" and "m' \<in> set ms'"
  shows "\<exists>m \<in> set ms. body m = Return None m'"
proof -
  from assms(2) obtain i where i: "i < length ms'" "ms' ! i = m'"
    by (auto simp: in_set_conv_nth)
  with assms(1) have "i < length ms" by (simp add: metrics_loop_length)
  with assms(1) i show ?thesis
    using metrics_loop_success [of body ms ms' i] by (metis nth_mem)
qed

lemma metrics_loop_error:
  "metrics_loop body ms = Return (Some e) ms'
    \<Longrightarrow> \<exists>m \<in> set ms. \<exists>m' \<in> set ms'. body m = Return (Some e) m'"
proof (induction ms arbitrary: ms')
  case Nil
  then show ?case by simp
next
  case (Cons m ms)
  then show ?case
    by (fastforce split: result.splits option.splits)
qed

lemma metrics_loop_total:
  "(\<And>m. body m = Return None (g m)) \<Longrightarrow> metrics_loop body ms = Return None (map g ms)"
  by (induction ms) auto

lemma require_loop_None:
  "require_loop mk vs m = None \<Longrightarrow> k \<in> set vs \<Longrightarrow> \<not> is_nil (index m k)"
  by (induction vs) (auto split: if_splits)

lemma require_loop_Some:
  "require_loop mk vs m = Some e \<Longrightarrow> \<exists>k \<in> set vs. e = mk k \<and> is_nil (index m k)"
  by (induction vs) (auto split: if_splits)

lemma ban_loop_None:
  "ban_loop mk vs m = None \<Longrightarrow> k \<in> set vs \<Longrightarrow> is_nil (index m k)"
  by (induction vs) (auto split: if_splits option.splits)

lemma ban_loop_Some:
  "ban_loop mk vs m = Some e \<Longrightarrow> \<exists>k \<in> set vs. e = mk k \<and> \<not> is_nil (index m k)"
  by (induction vs) (auto split: if_splits option.splits)

lemma flatten_loop_result:
  "flatten_loop nps sep keep metric isData = Return e metric' \<Longrightarrow> e = None"
  by (induction nps arbitrary: metric) (auto split: result.splits)

lemma Metadata_Transform_metric_error:
  assumes "Metadata_Transform_metric meta metric = Return (Some e) metric'"
  shows "(\<exists>k \<in> set (Metadata.Require meta).
            e = MissingRequiredMetadata k \<and> is_nil (index (Metric.Metadata metric') k))
       \<or> (\<exists>k \<in> set (Metadata.Ban meta).
            e = BannedMetadata k \<and> \<not> is_nil (index (Metric.Metadata metric') k))"
  using assms unfolding Metadata_Transform_metric_def Let_def
  by (auto split: option.splits dest!: require_loop_Some ban_loop_Some flatten_loop_result)

lemma Data_Transform_metric_error:
  assumes "Data_Transform_metric data metric = Return (Some e) metric'"
  shows "(\<exists>k \<in> set (Data.Require data).
            e = MissingRequiredData k \<and> is_nil (index (Metric.Data metric') k))
       \<or> (\<exists>k \<in> set (Data.Ban data).
            e = BannedData k \<and> \<not> is_nil (index (Metric.Data metric') k))"
  using assms unfolding Data_Transform_metric_def Let_def
  by (auto split: option.splits result.splits dest!: require_loop_Some ban_loop_Some)

lemma flatten_x_fails:
  "flattenStructure [''x''] ''_'' False metric_x True = Return (Some FailedCastToArray) metric_x"
  by (simp add: flattenStructure_def metric_x_def)

lemma require_host_run:
  "Metadata_Transform require_host \<lparr>Template = None, Metrics = [metric_x]\<rparr>
     = Return (Some (MissingRequiredMetadata ''host''))
         (require_host, \<lparr>Template = None, Metrics = [metric_x]\<rparr>)"
  by (simp add: Metadata_Transform_def Metadata_Transform_metric_def require_host_def metric_x_def)

lemma ban_x_run:
  "Data_Transform ban_x \<lparr>Template = None, Metrics = [metric_x]\<rparr>
     = Return (Some (BannedData ''x'')) (ban_x, \<lparr>Template = None, Metrics = [metric_x]\<rparr>)"
  by (simp add: Data_Transform_def Data_Transform_metric_def ban_x_def metric_x_def
      flattenStructure_def)

lemma extract_is_copy:
  "extract_loop [s] metric = copy_loop [\<lparr>Source = s, Destination = '''', Keep = False\<rparr>] metric"
  by (simp add: Let_def split: option.splits)

lemma Metadata_Transform_Rename_only:
  "Metadata_Transform (Metadata_zero\<lparr>Metadata.Rename := rs\<rparr>) c
     = Return None (Metadata_zero\<lparr>Metadata.Rename := rs\<rparr>,
         c\<lparr>Metrics := map (\<lambda>m. m\<lparr>Metric.Metadata := rename_loop rs (Metric.Metadata m)\<rparr>)
                        (Metrics c)\<rparr>)"
proof -
  have "Metadata_Transform_metric (Metadata_zero\<lparr>Metadata.Rename := rs\<rparr>) m
      = Return None (m\<lparr>Metric.Metadata := rename_loop rs (Metric.Metadata m)\<rparr>)" for m
    by (simp add: Metadata_Transform_metric_def Metadata_zero_def)
  then show ?thesis
    by (simp add: Metadata_Transform_def metrics_loop_total)
qed

lemma Data_Transform_Rename_only:
  "Data_Transform (Data_zero\<lparr>Data.Rename := rs\<rparr>) c
     = Return None (Data_zero\<lparr>Data.Rename := rs, Data.FlattenSeparator := ''__''\<rparr>,
         c\<lparr>Metrics := map (\<lambda>m. m\<lparr>Metric.Data := rename_loop rs (Metric.Data m)\<rparr>)
                        (Metrics c)\<rparr>)"
proof -
  have "Data_Transform_metric (Data_zero\<lparr>Data.Rename := rs, Data.FlattenSeparator := ''__''\<rparr>) m
      = Return None (m\<lparr>Metric.Data := rename_loop rs (Metric.Data m)\<rparr>)" for m
    by (simp add: Data_Transform_metric_def Data_zero_def)
  then show ?thesis
    by (simp add: Data_Transform_def metrics_loop_total Data_zero_def)
qed

lemma rename_loop_single:
  "rename_loop [\<lparr>Source = s, Destination = d, Keep = False\<rparr>] m
     = (case m of None \<Rightarrow> None
        | Some f \<Rightarrow> (case f s of None \<Rightarrow> Some f | Some v \<Rightarrow> Some ((f(d \<mapsto> v))(s := None))))"
  by (simp split: option.splits)

lemma rename_loop_twice:
  "rename_loop [\<lparr>Source = s, Destination = d, Keep = False\<rparr>]
     (rename_loop [\<lparr>Source = s, Destination = d, Keep = False\<rparr>] m)
   = rename_loop [\<lparr>Source = s, Destination = d, Keep = False\<rparr>] m"
  unfolding rename_loop_single by (simp split: option.splits)

lemma make_if_nil_index [simp]: "make_if_nil m k = index m k"
  by (cases m) simp_all

lemma extract_loop_frame:
  "k \<notin> set es \<Longrightarrow> index (Metric.Metadata (extract_loop es m)) k = index (Metric.Metadata m) k"
  by (induction es arbitrary: m) (auto split: option.splits)

lemma copy_loop_frame:
  "k \<notin> copy_destination ` set cs
    \<Longrightarrow> index (Metric.Metadata (copy_loop cs m)) k = index (Metric.Metadata m) k"
proof (induction cs arbitrary: m)
  case Nil
  then show ?case by simp
next
  case (Cons cpy cs)
  then have k: "k \<noteq> copy_destination cpy" and ks: "k \<notin> copy_destination ` set cs"
    by auto
  from k have "k \<noteq> (if Destination cpy = '''' then Source cpy else Destination cpy)"
    by (simp add: copy_destination_def)
  then show ?case
    using Cons.IH [OF ks] by (auto simp: Let_def split: option.splits)
qed

lemma remove_loop_frame:
  "k \<notin> set vs \<Longrightarrow> index (remove_loop vs m) k = index m k"
  by (induction vs arbitrary: m) (auto split: option.splits)

lemma rename_loop_frame:
  "k \<notin> Source ` set rs \<Longrightarrow> k \<notin> Destination ` set rs
    \<Longrightarrow> index (rename_loop rs m) k = index m k"
  by (induction rs arbitrary: m) (auto simp: Let_def split: option.splits)

lemma rename_loop_keeps_nil:
  "k \<notin> Destination ` set rs \<Longrightarrow> is_nil (index m k) \<Longrightarrow> is_nil (index (rename_loop rs m) k)"
  by (induction rs arbitrary: m) (auto simp: Let_def split: option.splits)

lemma Metadata_Transform_metric_Require:
  assumes "Metadata_Transform_metric meta m = Return None m'"
    and "k \<in> set (Metadata.Require meta)"
    and "k \<notin> set (ExtractFromData meta)"
    and "k \<notin> copy_destination ` set (CopyFromData meta)"
    and "k \<notin> set (Metadata.Remove meta)"
    and "k \<notin> Source ` set (Metadata.Rename meta)"
    and "k \<notin> Destination ` set (Metadata.Rename meta)"
    and "Metadata.Flatten meta = []"
  shows "\<not> is_nil (index (Metric.Metadata m') k)"
proof -
  define m1 where "m1 = m\<lparr>Metric.Metadata := set_loop (Metadata.Set meta) (Metric.Metadata m)\<rparr>"
  define m3 where "m3 = copy_loop (CopyFromData meta) (extract_loop (ExtractFromData meta) m1)"
  from assms(1,8) have req: "require_loop MissingRequiredMetadata (Metadata.Require meta) (Metric.Metadata m1) = None"
    and m': "m' = m3\<lparr>Metric.Metadata := rename_loop (Metadata.Rename meta)
                     (remove_loop (Metadata.Remove meta) (Metric.Metadata m3))\<rparr>"
    by (auto simp: Metadata_Transform_metric_def Let_def m1_def m3_def split: option.splits)
  from req assms(2) have "\<not> is_nil (index (Metric.Metadata m1) k)"
    by (rule require_loop_None)
  moreover have "index (Metric.Metadata m') k = index (Metric.Metadata m1) k"
    using assms(3-7)
    by (simp add: m' m3_def rename_loop_frame remove_loop_frame copy_loop_frame extract_loop_frame)
  ultimately show ?thesis by simp
qed

lemma Metadata_Transform_metric_Ban:
  assumes "Metadata_Transform_metric meta m = Return None m'"
    and "k \<in> set (Metadata.Ban meta)"
    and "k \<notin> Destination ` set (Metadata.Rename meta)"
    and "Metadata.Flatten meta = []"
  shows "is_nil (index (Metric.Metadata m') k)"
proof -
  define m1 where "m1 = m\<lparr>Metric.Metadata := set_loop (Metadata.Set meta) (Metric.Metadata m)\<rparr>"
  define m3 where "m3 = copy_loop (CopyFromData meta) (extract_loop (ExtractFromData meta) m1)"
  define m4 where "m4 = remove_loop (Metadata.Remove meta) (Metric.Metadata m3)"
  from assms(1,4) have ban: "ban_loop BannedMetadata (Metadata.Ban meta) m4 = None"
    and m': "m' = m3\<lparr>Metric.Metadata := rename_loop (Metadata.Rename meta) m4\<rparr>"
    by (auto simp: Metadata_Transform_metric_def Let_def m1_def m3_def m4_def split: option.splits)
  from ban assms(2) have "is_nil (index m4 k)" by (rule ban_loop_None)
  with assms(3) show ?thesis by (simp add: m' rename_loop_keeps_nil)
qed

lemma require_ban_run:
  "Metadata_Transform require_ban \<lparr>Template = None, Metrics = [metric_host]\<rparr>
     = Return None (require_ban, \<lparr>Template = None,
         Metrics = [metric_host\<lparr>Metric.Metadata :=
                      Some [''host'' \<mapsto> String ''h1'', ''site'' \<mapsto> String ''A'']\<rparr>]\<rparr>)"
  by (simp add: Metadata_Transform_def Metadata_Transform_metric_def Metadata_zero_def
      require_ban_def metric_host_def)

lemma copy_loop_single:
  "copy_loop [\<lparr>Source = s, Destination = d, Keep = keep\<rparr>] m
     = (case index (Metric.Data m) s of
          None \<Rightarrow> m
        | Some v \<Rightarrow>
            m\<lparr>Metric.Metadata := Some ((make_if_nil (Metric.Metadata m))((if d = '''' then s else d) \<mapsto> v)),
              Metric.Data := (if keep then Metric.Data m else delete (Metric.Data m) s)\<rparr>)"
  by (simp add: Let_def split: option.splits)

lemma copy_loop_default:
  "copy_loop [\<lparr>Source = s, Destination = '''', Keep = keep\<rparr>] m
     = copy_loop [\<lparr>Source = s, Destination = s, Keep = keep\<rparr>] m"
  unfolding copy_loop_single by simp

lemma index_delete_same: "index (delete m k) k = None"
  by (cases m) simp_all

lemma Metadata_Transform_metric_Copy:
  assumes run: "Metadata_Transform_metric meta m = Return None m'"
    and cfg: "ExtractFromData meta = []"
      "CopyFromData meta = [\<lparr>Source = s, Destination = d, Keep = keep\<rparr>]"
      "Metadata.Remove meta = []" "Metadata.Rename meta = []" "Metadata.Flatten meta = []"
    and src: "index (Metric.Data m) s = Some v"
  shows "index (Metric.Metadata m') (if d = '''' then s else d) = Some v
       \<and> index (Metric.Data m') s = (if keep then Some v else None)"
proof -
  define m1 where "m1 = m\<lparr>Metric.Metadata := set_loop (Metadata.Set meta) (Metric.Metadata m)\<rparr>"
  from run cfg have m': "m' = copy_loop [\<lparr>Source = s, Destination = d, Keep = keep\<rparr>] m1"
    by (auto simp: Metadata_Transform_metric_def Let_def m1_def
        simp del: copy_loop.simps split: option.splits)
  have "index (Metric.Data m1) s = Some v" using src by (simp add: m1_def)
  then show ?thesis
    unfolding m' copy_loop_single by (simp add: index_delete_same)
qed

lemma copy_host_run:
  "Metadata_Transform copy_host \<lparr>Template = None, Metrics = [metric_host]\<rparr>
     = Return None (copy_host, \<lparr>Template = None,
         Metrics = [metric_host\<lparr>
            Metric.Metadata := Some [''host'' \<mapsto> String ''h1'', ''site'' \<mapsto> String ''A'',
                                     ''node'' \<mapsto> String ''h1''],
            Metric.Data := Some [''v'' \<mapsto> Number 42]\<rparr>]\<rparr>)"
  by (auto simp: Metadata_Transform_def Metadata_Transform_metric_def Metadata_zero_def
      copy_host_def metric_host_def fun_eq_iff)

lemma Data_Transform_metric_flatten_a:
  "Data_Transform_metric (flatten_a\<lparr>Data.FlattenSeparator := ''__''\<rparr>) m
     = Return None (case flattenStructure [''a''] ''__'' False m True of
                      Return e m' \<Rightarrow> m' | Panic \<Rightarrow> m)"
  using flattenStructure_no_panic [of "[''a'']" "''__''" False m True]
  by (simp add: Data_Transform_metric_def flatten_a_def split: result.splits)

lemma flatten_ab_default:
  assumes "Metric.Data m = Some [''a'' \<mapsto> Object kvs]"
    and "kvs = [(''b'', Number 1), (''c'', Number 2)] \<or> kvs = [(''c'', Number 2), (''b'', Number 1)]"
  shows "flattenStructure [''a''] ''__'' False m True
     = Return None (m\<lparr>Metric.Data := Some [''a__b'' \<mapsto> Number 1, ''a__c'' \<mapsto> Number 2]\<rparr>)"
proof -
  have "(\<lambda>k. if k = ''a'' then None else if k = ''a__c'' then Some (Number 2)
              else if k = ''a__b'' then Some (Number 1) else None)
      = [''a__b'' \<mapsto> Number 1, ''a__c'' \<mapsto> Number 2]"
    by (auto simp: fun_eq_iff)
  with assms show ?thesis
    by (auto simp: flattenStructure_def fun_eq_iff)
qed

text \<open>
  The embedding with the receiver in the state: each loop returns the transformer it
  was given, next to what the loop of the first embedding computes.
\<close>

lemma Metadata_Set_rcv_eq:
  "Metadata_Set_rcv kvs (meta, metric)
     = (meta, metric\<lparr>Metric.Metadata := set_loop kvs (Metric.Metadata metric)\<rparr>)"
  by (induction kvs arbitrary: metric) auto

lemma Metadata_Require_rcv_eq:
  "Metadata_Require_rcv vs (meta, metric)
     = (require_loop MissingRequiredMetadata vs (Metric.Metadata metric), meta, metric)"
  by (induction vs) auto

lemma Metadata_ExtractFromData_rcv_eq:
  "Metadata_ExtractFromData_rcv es (meta, metric) = (meta, extract_loop es metric)"
  by (induction es arbitrary: metric) (auto split: option.splits)

lemma CopyFromData_body_rcv_receiver:
  "fst (snd (CopyFromData_body_rcv cpy (meta, metric))) = meta"
  by (simp add: CopyFromData_body_rcv_def Let_def split: option.splits)

lemma Metadata_CopyFromData_rcv_eq:
  "Metadata_CopyFromData_rcv cs (meta, metric) = (meta, copy_loop cs metric)"
proof (induction cs arbitrary: metric)
  case Nil
  then show ?case by simp
next
  case (Cons cpy cs)
  show ?case
  proof (cases "index (Metric.Data metric) (Source cpy)")
    case None
    then show ?thesis by (simp add: CopyFromData_body_rcv_def Cons.IH)
  next
    case (Some v)
    then show ?thesis
      by (simp add: CopyFromData_body_rcv_def Let_def Cons.IH)
  qed
qed

lemma Metadata_Remove_rcv_eq:
  "Metadata_Remove_rcv vs (meta, metric)
     = (meta, metric\<lparr>Metric.Metadata := remove_loop vs (Metric.Metadata metric)\<rparr>)"
  by (induction vs arbitrary: metric) (auto split: option.splits)

lemma Metadata_Ban_rcv_eq:
  "Metadata_Ban_rcv vs (meta, metric)
     = (ban_loop BannedMetadata vs (Metric.Metadata metric), meta, metric)"
  by (induction vs) (auto split: option.splits)

lemma Metadata_Rename_rcv_eq:
  "Metadata_Rename_rcv rs (meta, metric)
     = (meta, metric\<lparr>Metric.Metadata := rename_loop rs (Metric.Metadata metric)\<rparr>)"
  by (induction rs arbitrary: metric) (auto simp: Let_def split: option.splits)

lemma Metadata_Flatten_rcv_eq:
  "Metadata_Flatten_rcv nps (meta, metric)
     = map_result (Pair meta)
         (flatten_loop nps (Metadata.FlattenSeparator meta) (Metadata.KeepOriginal meta) metric False)"
  by (induction nps arbitrary: metric) (auto split: result.splits)

lemma Metadata_body_rcv_eq:
  "Metadata_body_rcv (meta, metric) = map_result (Pair meta) (Metadata_Transform_metric meta metric)"
  by (simp add: Metadata_body_rcv_def Metadata_Transform_metric_def Metadata_Set_rcv_eq
      Metadata_Require_rcv_eq Metadata_ExtractFromData_rcv_eq Metadata_CopyFromData_rcv_eq
      Metadata_Remove_rcv_eq Metadata_Ban_rcv_eq Metadata_Rename_rcv_eq Metadata_Flatten_rcv_eq
      Let_def split: option.splits)

lemma Metadata_Metrics_rcv_eq:
  "Metadata_Metrics_rcv ms meta
     = map_result (Pair meta) (metrics_loop (Metadata_Transform_metric meta) ms)"
  by (induction ms) (auto simp: Metadata_body_rcv_eq split: result.splits option.splits)

lemma Metadata_Transform_rcv_eq: "Metadata_Transform_rcv meta c = Metadata_Transform meta c"
  by (simp add: Metadata_Transform_rcv_def Metadata_Transform_def Metadata_Metrics_rcv_eq
      split: result.splits)

lemma Data_Set_rcv_eq:
  "Data_Set_rcv kvs (data, metric)
     = (data, metric\<lparr>Metric.Data := set_loop kvs (Metric.Data metric)\<rparr>)"
  by (induction kvs arbitrary: metric) auto

lemma Data_Flatten_rcv_eq:
  "Data_Flatten_rcv nps (data, metric)
     = map_result (Pair data)
         (flatten_loop nps (Data.FlattenSeparator data) (Data.KeepOriginal data) metric True)"
  by (induction nps arbitrary: metric) (auto split: result.splits)

lemma Data_Require_rcv_eq:
  "Data_Require_rcv vs (data, metric)
     = (require_loop MissingRequiredData vs (Metric.Data metric), data, metric)"
  by (induction vs) auto

lemma Data_Remove_rcv_eq:
  "Data_Remove_rcv vs (data, metric)
     = (data, metric\<lparr>Metric.Data := remove_loop vs (Metric.Data metric)\<rparr>)"
  by (induction vs arbitrary: metric) (auto split: option.splits)

lemma Data_Ban_rcv_eq:
  "Data_Ban_rcv vs (data, metric)
     = (ban_loop BannedData vs (Metric.Data metric), data, metric)"
  by (induction vs) (auto split: option.splits)

lemma Data_Rename_rcv_eq:
  "Data_Rename_rcv rs (data, metric)
     = (data, metric\<lparr>Metric.Data := rename_loop rs (Metric.Data metric)\<rparr>)"
  by (induction rs arbitrary: metric) (auto simp: Let_def split: option.splits)

lemma Data_body_rcv_eq:
  "Data_body_rcv (data, metric) = map_result (Pair data) (Data_Transform_metric data metric)"
  by (simp add: Data_body_rcv_def Data_Transform_metric_def Data_Set_rcv_eq
      Data_Require_rcv_eq Data_Remove_rcv_eq Data_Ban_rcv_eq Data_Rename_rcv_eq Data_Flatten_rcv_eq
      Let_def split: option.splits result.splits)

lemma Data_Metrics_rcv_eq:
  "Data_Metrics_rcv ms data
     = map_result (Pair data) (metrics_loop (Data_Transform_metric data) ms)"
  by (induction ms) (auto simp: Data_body_rcv_eq split: result.splits option.splits)

lemma Data_Transform_rcv_eq: "Data_Transform_rcv data c = Data_Transform data c"
  by (simp add: Data_Transform_rcv_def Data_Transform_def Data_Metrics_rcv_eq Let_def
      split: result.splits)

lemma copy_default_run:
  "Metadata_Transform_rcv copy_default \<lparr>Template = None, Metrics = [metric_host]\<rparr>
     = Return None (copy_default, \<lparr>Template = None,
         Metrics = [metric_host\<lparr>Metric.Data := Some [''v'' \<mapsto> Number 42]\<rparr>]\<rparr>)"
  by (auto simp: Metadata_Transform_rcv_def Metadata_body_rcv_def CopyFromData_body_rcv_def
      copy_default_def Metadata_zero_def metric_host_def fun_eq_iff)

lemma flatten_a_run:
  "Data_Transform_rcv flatten_a \<lparr>Template = None, Metrics = [metric_ab]\<rparr>
     = Return None (flatten_a\<lparr>Data.FlattenSeparator := ''__''\<rparr>, \<lparr>Template = None,
         Metrics = [metric_ab\<lparr>Metric.Data :=
                      Some [''a__b'' \<mapsto> Number 1, ''a__c'' \<mapsto> Number 2]\<rparr>]\<rparr>)"
  by (auto simp: Data_Transform_rcv_def Data_body_rcv_def flattenStructure_def
      flatten_a_def metric_ab_def fun_eq_iff)

section \<open>The claims\<close>

subsection \<open>C1: Require and Ban\<close>

text \<open>
  C1, as stated, fails, because \<^verbatim>\<open>Require\<close> and \<^verbatim>\<open>Ban\<close> are checks in the
  middle of the rule order and compare with nil. Each of these transformers succeeds:
  \<^verbatim>\<open>Require = [host]\<close> with \<^verbatim>\<open>Remove = [host]\<close> leaves a metric that had \<open>host\<close>
  without it; \<^verbatim>\<open>Ban = [host]\<close> on metadata that binds \<open>host\<close> to null leaves the key
  present; \<^verbatim>\<open>Ban = [node]\<close> with a \<^verbatim>\<open>Rename\<close> of \<open>host\<close> to \<open>node\<close> leaves
  \<open>node\<close> present; \<^verbatim>\<open>Require = [a]\<close> with \<^verbatim>\<open>Flatten = [[a]]\<close> leaves a metric
  that had \<open>a\<close> without it.
\<close>

theorem Require_Ban_not_final:
  "Metadata_Transform (Metadata_zero\<lparr>Metadata.Require := [''host''], Metadata.Remove := [''host'']\<rparr>)
     \<lparr>Template = None, Metrics = [metric_host]\<rparr>
   = Return None
       (Metadata_zero\<lparr>Metadata.Require := [''host''], Metadata.Remove := [''host'']\<rparr>,
        \<lparr>Template = None, Metrics = [metric_host\<lparr>Metric.Metadata := Some Map.empty\<rparr>]\<rparr>)
   \<and> index (Some Map.empty) ''host'' = None
   \<and> Metadata_Transform (Metadata_zero\<lparr>Metadata.Ban := [''host'']\<rparr>)
     \<lparr>Template = None, Metrics = [metric_null]\<rparr>
   = Return None (Metadata_zero\<lparr>Metadata.Ban := [''host'']\<rparr>,
       \<lparr>Template = None, Metrics = [metric_null]\<rparr>)
   \<and> index (Metric.Metadata metric_null) ''host'' = Some Null
   \<and> Metadata_Transform
       (Metadata_zero\<lparr>Metadata.Ban := [''node''],
          Metadata.Rename := [\<lparr>Source = ''host'', Destination = ''node'', Keep = False\<rparr>]\<rparr>)
       \<lparr>Template = None, Metrics = [metric_host]\<rparr>
   = Return None
       (Metadata_zero\<lparr>Metadata.Ban := [''node''],
          Metadata.Rename := [\<lparr>Source = ''host'', Destination = ''node'', Keep = False\<rparr>]\<rparr>,
        \<lparr>Template = None,
         Metrics = [metric_host\<lparr>Metric.Metadata := Some [''node'' \<mapsto> String ''h1'']\<rparr>]\<rparr>)
   \<and> Metadata_Transform
       (Metadata_zero\<lparr>Metadata.Require := [''a''], Metadata.Flatten := [[''a'']],
          Metadata.FlattenSeparator := ''_''\<rparr>)
       \<lparr>Template = None, Metrics = [metric_meta_ab]\<rparr>
   = Return None
       (Metadata_zero\<lparr>Metadata.Require := [''a''], Metadata.Flatten := [[''a'']],
          Metadata.FlattenSeparator := ''_''\<rparr>,
        \<lparr>Template = None,
         Metrics = [metric_meta_ab\<lparr>Metric.Metadata := Some [''a_b'' \<mapsto> Number 1]\<rparr>]\<rparr>)
   \<and> index (Some [''a_b'' \<mapsto> Number 1]) ''a'' = None"
  by (auto simp: Metadata_Transform_def Metadata_Transform_metric_def Metadata_zero_def
      metric_host_def metric_null_def metric_meta_ab_def flattenStructure_def fun_eq_iff)

text \<open>
  C1, amended. Let \<^verbatim>\<open>Metadata.Transform\<close> succeed, with \<^verbatim>\<open>Flatten\<close> empty.
  If \<open>k\<close> is in \<^verbatim>\<open>Require\<close> and no rule that runs after \<^verbatim>\<open>Require\<close> names \<open>k\<close>
  (it is not in \<^verbatim>\<open>ExtractFromData\<close> or \<^verbatim>\<open>Remove\<close>, is not the destination a
  \<^verbatim>\<open>CopyFromData\<close> rule writes to, and is neither source nor destination of a
  \<^verbatim>\<open>Rename\<close> rule), then every metric has \<open>Metadata[k]\<close> present and non-null. If \<open>k\<close>
  is in \<^verbatim>\<open>Ban\<close> and is not the destination of a \<^verbatim>\<open>Rename\<close> rule, then on every
  metric \<open>Metadata[k]\<close> is absent or null.
\<close>

theorem Require_Ban_after_success:
  assumes "Metadata_Transform meta c = Return None (meta', c')"
    and "Metadata.Flatten meta = []"
    and "m' \<in> set (Metrics c')"
  shows "(k \<in> set (Metadata.Require meta) \<and> k \<notin> set (ExtractFromData meta)
           \<and> k \<notin> copy_destination ` set (CopyFromData meta) \<and> k \<notin> set (Metadata.Remove meta)
           \<and> k \<notin> Source ` set (Metadata.Rename meta)
           \<and> k \<notin> Destination ` set (Metadata.Rename meta)
          \<longrightarrow> \<not> is_nil (index (Metric.Metadata m') k))
       \<and> (k \<in> set (Metadata.Ban meta) \<and> k \<notin> Destination ` set (Metadata.Rename meta)
          \<longrightarrow> is_nil (index (Metric.Metadata m') k))"
proof -
  from assms(1) have "metrics_loop (Metadata_Transform_metric meta) (Metrics c)
      = Return None (Metrics c')"
    by (auto simp: Metadata_Transform_def split: result.splits)
  with assms(3) obtain m where m: "Metadata_Transform_metric meta m = Return None m'"
    using metrics_loop_success_set by blast
  show ?thesis
    using Metadata_Transform_metric_Require [OF m] Metadata_Transform_metric_Ban [OF m] assms(2)
    by blast
qed

theorem Require_Ban_after_success_witness:
  "Metadata_Transform require_ban \<lparr>Template = None, Metrics = [metric_host]\<rparr>
     = Return None (require_ban, \<lparr>Template = None,
         Metrics = [metric_host\<lparr>Metric.Metadata :=
                      Some [''host'' \<mapsto> String ''h1'', ''site'' \<mapsto> String ''A'']\<rparr>]\<rparr>)
   \<and> Metadata.Flatten require_ban = []
   \<and> ''host'' \<in> set (Metadata.Require require_ban)
   \<and> ''secret'' \<in> set (Metadata.Ban require_ban)
   \<and> \<not> is_nil (index (Some [''host'' \<mapsto> String ''h1'', ''site'' \<mapsto> String ''A'']) ''host'')
   \<and> is_nil (index (Some [''host'' \<mapsto> String ''h1'', ''site'' \<mapsto> String ''A'']) ''secret'')"
proof -
  have flat: "Metadata.Flatten require_ban = []"
    by (simp add: require_ban_def Metadata_zero_def)
  have mem: "metric_host\<lparr>Metric.Metadata :=
                 Some [''host'' \<mapsto> String ''h1'', ''site'' \<mapsto> String ''A'']\<rparr>
      \<in> set (Metrics \<lparr>Template = None,
         Metrics = [metric_host\<lparr>Metric.Metadata :=
                      Some [''host'' \<mapsto> String ''h1'', ''site'' \<mapsto> String ''A'']\<rparr>]\<rparr>)"
    by simp
  show ?thesis
    using Require_Ban_after_success [OF require_ban_run flat mem, of "''host''"]
      Require_Ban_after_success [OF require_ban_run flat mem, of "''secret''"]
      require_ban_run flat
    by (simp add: require_ban_def Metadata_zero_def copy_destination_def)
qed

subsection \<open>C2: CopyFromData\<close>

text \<open>
  C2. Let \<^verbatim>\<open>Metadata.Transform\<close> succeed with
  \<^verbatim>\<open>CopyFromData = [{source: s, destination: d, keep: keep}]\<close> and no
  \<^verbatim>\<open>ExtractFromData\<close>, \<^verbatim>\<open>Remove\<close>, \<^verbatim>\<open>Rename\<close> or \<^verbatim>\<open>Flatten\<close> rule. A
  metric that had \<open>Data[s] = v\<close> then has \<open>Metadata[d] = v\<close>, where an empty \<open>d\<close>
  stands for \<open>s\<close>; its \<open>Data[s]\<close> is absent when \<open>keep\<close> is false and still \<open>v\<close> when
  \<open>keep\<close> is true. Moreover a rule with an empty destination and the same rule with
  destination \<open>s\<close> give the same error and the same container, whatever the other
  fields of the transformer are.
\<close>

theorem CopyFromData_semantics:
  "(Metadata_Transform meta c = Return None (meta', c')
      \<and> CopyFromData meta = [\<lparr>Source = s, Destination = d, Keep = keep\<rparr>]
      \<and> ExtractFromData meta = [] \<and> Metadata.Remove meta = [] \<and> Metadata.Rename meta = []
      \<and> Metadata.Flatten meta = []
      \<and> i < length (Metrics c) \<and> index (Metric.Data (Metrics c ! i)) s = Some v
    \<longrightarrow> index (Metric.Metadata (Metrics c' ! i)) (if d = '''' then s else d) = Some v
      \<and> index (Metric.Data (Metrics c' ! i)) s = (if keep then Some v else None))
   \<and> map_result snd
       (Metadata_Transform (cfg\<lparr>CopyFromData := [\<lparr>Source = s, Destination = '''', Keep = keep\<rparr>]\<rparr>) c)
     = map_result snd
       (Metadata_Transform (cfg\<lparr>CopyFromData := [\<lparr>Source = s, Destination = s, Keep = keep\<rparr>]\<rparr>) c)"
proof (intro conjI impI)
  assume a: "Metadata_Transform meta c = Return None (meta', c')
      \<and> CopyFromData meta = [\<lparr>Source = s, Destination = d, Keep = keep\<rparr>]
      \<and> ExtractFromData meta = [] \<and> Metadata.Remove meta = [] \<and> Metadata.Rename meta = []
      \<and> Metadata.Flatten meta = []
      \<and> i < length (Metrics c) \<and> index (Metric.Data (Metrics c ! i)) s = Some v"
  then have "metrics_loop (Metadata_Transform_metric meta) (Metrics c) = Return None (Metrics c')"
    by (auto simp: Metadata_Transform_def split: result.splits)
  with a have run: "Metadata_Transform_metric meta (Metrics c ! i) = Return None (Metrics c' ! i)"
    using metrics_loop_success by blast
  from Metadata_Transform_metric_Copy [OF run, of s d keep v] a
  show "index (Metric.Metadata (Metrics c' ! i)) (if d = '''' then s else d) = Some v"
    and "index (Metric.Data (Metrics c' ! i)) s = (if keep then Some v else None)"
    by blast+
next
  have "Metadata_Transform_metric
          (cfg\<lparr>CopyFromData := [\<lparr>Source = s, Destination = '''', Keep = keep\<rparr>]\<rparr>) m
      = Metadata_Transform_metric
          (cfg\<lparr>CopyFromData := [\<lparr>Source = s, Destination = s, Keep = keep\<rparr>]\<rparr>) m" for m
    by (simp add: Metadata_Transform_metric_def copy_loop_default Let_def
        del: copy_loop.simps split: option.splits)
  then have "Metadata_Transform_metric
          (cfg\<lparr>CopyFromData := [\<lparr>Source = s, Destination = '''', Keep = keep\<rparr>]\<rparr>)
      = Metadata_Transform_metric
          (cfg\<lparr>CopyFromData := [\<lparr>Source = s, Destination = s, Keep = keep\<rparr>]\<rparr>)"
    by (rule ext)
  then show "map_result snd
       (Metadata_Transform (cfg\<lparr>CopyFromData := [\<lparr>Source = s, Destination = '''', Keep = keep\<rparr>]\<rparr>) c)
     = map_result snd
       (Metadata_Transform (cfg\<lparr>CopyFromData := [\<lparr>Source = s, Destination = s, Keep = keep\<rparr>]\<rparr>) c)"
    by (simp add: Metadata_Transform_def split: result.splits)
qed

theorem CopyFromData_semantics_witness:
  "Metadata_Transform copy_host \<lparr>Template = None, Metrics = [metric_host]\<rparr>
     = Return None (copy_host, \<lparr>Template = None,
         Metrics = [metric_host\<lparr>
            Metric.Metadata := Some [''host'' \<mapsto> String ''h1'', ''site'' \<mapsto> String ''A'',
                                     ''node'' \<mapsto> String ''h1''],
            Metric.Data := Some [''v'' \<mapsto> Number 42]\<rparr>]\<rparr>)
   \<and> CopyFromData copy_host = [\<lparr>Source = ''host'', Destination = ''node'', Keep = False\<rparr>]
   \<and> index (Metric.Data metric_host) ''host'' = Some (String ''h1'')
   \<and> index (Some [''host'' \<mapsto> String ''h1'', ''site'' \<mapsto> String ''A'',
                    ''node'' \<mapsto> String ''h1'']) ''node'' = Some (String ''h1'')
   \<and> index (Some [''v'' \<mapsto> Number 42]) ''host'' = None"
  using CopyFromData_semantics [of copy_host "\<lparr>Template = None, Metrics = [metric_host]\<rparr>"
      copy_host "\<lparr>Template = None,
         Metrics = [metric_host\<lparr>
            Metric.Metadata := Some [''host'' \<mapsto> String ''h1'', ''site'' \<mapsto> String ''A'',
                                     ''node'' \<mapsto> String ''h1''],
            Metric.Data := Some [''v'' \<mapsto> Number 42]\<rparr>]\<rparr>"
      "''host''" "''node''" False 0 "String ''h1''" copy_host]
    copy_host_run
  by (simp add: copy_host_def Metadata_zero_def metric_host_def)

subsection \<open>C3: Flatten with the default separator\<close>

text \<open>
  C3. Under \<^verbatim>\<open>Data.Transform\<close> with \<^verbatim>\<open>Flatten = [["a"]]\<close>,
  \<^verbatim>\<open>FlattenSeparator\<close> unset, \<^verbatim>\<open>KeepOriginal = false\<close> and no other rule, which
  succeeds on every container, a metric whose data is \<open>{a: {b: 1, c: 2}}\<close> (its two keys
  visited in either order) ends with the data \<open>{a__b: 1, a__c: 2}\<close>: both children
  under the default separator, and no key \<open>a\<close>.
\<close>

theorem Flatten_default_separator:
  assumes "i < length (Metrics c)"
    and "Metric.Data (Metrics c ! i) = Some [''a'' \<mapsto> Object kvs]"
    and "kvs = [(''b'', Number 1), (''c'', Number 2)] \<or> kvs = [(''c'', Number 2), (''b'', Number 1)]"
  shows "\<exists>c'. Data_Transform flatten_a c
                = Return None (flatten_a\<lparr>Data.FlattenSeparator := ''__''\<rparr>, c')
            \<and> length (Metrics c') = length (Metrics c)
            \<and> Metric.Data (Metrics c' ! i)
                = Some [''a__b'' \<mapsto> Number 1, ''a__c'' \<mapsto> Number 2]"
proof -
  let ?g = "\<lambda>m. case flattenStructure [''a''] ''__'' False m True of
                    Return e m' \<Rightarrow> m' | Panic \<Rightarrow> m"
  have "metrics_loop (Data_Transform_metric (flatten_a\<lparr>Data.FlattenSeparator := ''__''\<rparr>))
          (Metrics c) = Return None (map ?g (Metrics c))"
    by (rule metrics_loop_total) (rule Data_Transform_metric_flatten_a)
  then have "Data_Transform flatten_a c
      = Return None (flatten_a\<lparr>Data.FlattenSeparator := ''__''\<rparr>,
                     c\<lparr>Metrics := map ?g (Metrics c)\<rparr>)"
    by (simp add: Data_Transform_def flatten_a_def)
  moreover have "Metric.Data (?g (Metrics c ! i))
      = Some [''a__b'' \<mapsto> Number 1, ''a__c'' \<mapsto> Number 2]"
    by (simp add: flatten_ab_default [OF assms(2,3)])
  ultimately show ?thesis using assms(1) by simp
qed

theorem Flatten_default_separator_witness:
  "0 < length (Metrics \<lparr>Template = None, Metrics = [metric_ab]\<rparr>)
   \<and> Metric.Data (Metrics \<lparr>Template = None, Metrics = [metric_ab]\<rparr> ! 0)
       = Some [''a'' \<mapsto> Object [(''b'', Number 1), (''c'', Number 2)]]
   \<and> (\<exists>c'. Data_Transform flatten_a \<lparr>Template = None, Metrics = [metric_ab]\<rparr>
                = Return None (flatten_a\<lparr>Data.FlattenSeparator := ''__''\<rparr>, c')
            \<and> Metric.Data (Metrics c' ! 0)
                = Some [''a__b'' \<mapsto> Number 1, ''a__c'' \<mapsto> Number 2])"
proof -
  have h1: "0 < length (Metrics \<lparr>Template = None, Metrics = [metric_ab]\<rparr>)" by simp
  have h2: "Metric.Data (Metrics \<lparr>Template = None, Metrics = [metric_ab]\<rparr> ! 0)
       = Some [''a'' \<mapsto> Object [(''b'', Number 1), (''c'', Number 2)]]"
    by (simp add: metric_ab_def)
  have h3: "[(''b'', Number 1), (''c'', Number 2)] = [(''b'', Number 1), (''c'', Number 2)]
      \<or> [(''b'', Number 1), (''c'', Number 2)] = [(''c'', Number 2), (''b'', Number 1)]"
    by simp
  from Flatten_default_separator [OF h1 h2 h3] h1 h2 show ?thesis by blast
qed

subsection \<open>C4: Flatten of an array of maps\<close>

text \<open>
  C4, as stated, fails: flattening \<open>{a: [{x: 1}, {y: 2}]}\<close> with path \<open>["a"]\<close> and
  separator \<open>"_"\<close> leaves the keys \<open>a_0_x\<close> and \<open>a_1_y\<close>; there is no key \<open>0_x\<close> and no
  key \<open>1_y\<close>.
\<close>

theorem Flatten_array_keeps_prefix:
  "flattenStructure [''a''] ''_'' False metric_axy True
     = Return None (metric_axy\<lparr>Metric.Data := Some [''a_0_x'' \<mapsto> Number 1, ''a_1_y'' \<mapsto> Number 2]\<rparr>)
   \<and> index (Some [''a_0_x'' \<mapsto> Number 1, ''a_1_y'' \<mapsto> Number 2]) ''0_x'' = None
   \<and> index (Some [''a_0_x'' \<mapsto> Number 1, ''a_1_y'' \<mapsto> Number 2]) ''1_y'' = None"
  by (auto simp: flattenStructure_def metric_axy_def itoa.simps fun_eq_iff)

text \<open>
  C4, amended. For every metric whose target map equals \<open>{a: [{x: 1}, {y: 2}]}\<close>,
  flattening with path \<open>["a"]\<close> and separator \<open>"_"\<close> succeeds and writes the keys
  \<open>a_0_x = 1\<close> and \<open>a_1_y = 2\<close>: the index is joined with each element's keys and the
  result carries the prefix \<open>a\<close>, as the keys of a flattened mapping do. The key \<open>a\<close>
  stays exactly when \<open>keepOriginal\<close> is set.
\<close>

theorem Flatten_array_of_maps:
  assumes "(if isData then Metric.Data m else Metric.Metadata m)
      = Some [''a'' \<mapsto> Array [Object [(''x'', Number 1)], Object [(''y'', Number 2)]]]"
  shows "flattenStructure [''a''] ''_'' keep m isData
     = Return None
         (if isData
          then m\<lparr>Metric.Data := Some
                 (if keep
                  then [''a'' \<mapsto> Array [Object [(''x'', Number 1)], Object [(''y'', Number 2)]],
                        ''a_0_x'' \<mapsto> Number 1, ''a_1_y'' \<mapsto> Number 2]
                  else [''a_0_x'' \<mapsto> Number 1, ''a_1_y'' \<mapsto> Number 2])\<rparr>
          else m\<lparr>Metric.Metadata := Some
                 (if keep
                  then [''a'' \<mapsto> Array [Object [(''x'', Number 1)], Object [(''y'', Number 2)]],
                        ''a_0_x'' \<mapsto> Number 1, ''a_1_y'' \<mapsto> Number 2]
                  else [''a_0_x'' \<mapsto> Number 1, ''a_1_y'' \<mapsto> Number 2])\<rparr>)"
proof -
  have 1: "(\<lambda>k. if k = ''a'' then None else if k = ''a_1_y'' then Some (Number 2)
              else if k = ''a_0_x'' then Some (Number 1) else None)
      = [''a_0_x'' \<mapsto> Number 1, ''a_1_y'' \<mapsto> Number 2]"
    by (auto simp: fun_eq_iff)
  show ?thesis
    using assms 1 by (cases isData; cases keep) (auto simp: flattenStructure_def itoa.simps fun_eq_iff)
qed

theorem Flatten_array_of_maps_witness:
  "Metric.Data metric_axy
      = Some [''a'' \<mapsto> Array [Object [(''x'', Number 1)], Object [(''y'', Number 2)]]]
   \<and> flattenStructure [''a''] ''_'' True metric_axy True
     = Return None
         (metric_axy\<lparr>Metric.Data := Some
            [''a'' \<mapsto> Array [Object [(''x'', Number 1)], Object [(''y'', Number 2)]],
             ''a_0_x'' \<mapsto> Number 1, ''a_1_y'' \<mapsto> Number 2]\<rparr>)"
proof -
  have h: "(if True then Metric.Data metric_axy else Metric.Metadata metric_axy)
      = Some [''a'' \<mapsto> Array [Object [(''x'', Number 1)], Object [(''y'', Number 2)]]]"
    by (simp add: metric_axy_def)
  from Flatten_array_of_maps [OF h, of True] h show ?thesis by simp
qed

subsection \<open>C5: Flatten with the separator drop\<close>

text \<open>
  C5, evaluated: with the separator \<open>"drop"\<close> and \<open>keepOriginal = false\<close> the children
  \<open>b\<close> and \<open>c\<close> are written at the top level without a prefix, and the key deleted is
  the empty string, so the nested key \<open>a\<close> is still there.
\<close>

theorem Flatten_drop_keeps_original:
  "flattenStructure [''a''] ''drop'' False metric_ab True
     = Return None
         (metric_ab\<lparr>Metric.Data := Some
            [''a'' \<mapsto> Object [(''b'', Number 1), (''c'', Number 2)],
             ''b'' \<mapsto> Number 1, ''c'' \<mapsto> Number 2]\<rparr>)
   \<and> index (Some [''a'' \<mapsto> Object [(''b'', Number 1), (''c'', Number 2)],
                    ''b'' \<mapsto> Number 1, ''c'' \<mapsto> Number 2]) ''a''
       = Some (Object [(''b'', Number 1), (''c'', Number 2)])
   \<and> Some [''a'' \<mapsto> Object [(''b'', Number 1), (''c'', Number 2)],
             ''b'' \<mapsto> Number 1, ''c'' \<mapsto> Number 2]
       \<noteq> Some [''b'' \<mapsto> Number 1, ''c'' \<mapsto> Number 2]"
proof -
  have "[''a'' \<mapsto> Object [(''b'', Number 1), (''c'', Number 2)],
             ''b'' \<mapsto> Number 1, ''c'' \<mapsto> Number 2] ''a''
       \<noteq> [''b'' \<mapsto> Number 1, ''c'' \<mapsto> Number 2] ''a''"
    by simp
  then have "[''a'' \<mapsto> Object [(''b'', Number 1), (''c'', Number 2)],
             ''b'' \<mapsto> Number 1, ''c'' \<mapsto> Number 2]
       \<noteq> [''b'' \<mapsto> Number 1, ''c'' \<mapsto> Number 2]"
    by metis
  moreover have "flattenStructure [''a''] ''drop'' False metric_ab True
     = Return None
         (metric_ab\<lparr>Metric.Data := Some
            [''a'' \<mapsto> Object [(''b'', Number 1), (''c'', Number 2)],
             ''b'' \<mapsto> Number 1, ''c'' \<mapsto> Number 2]\<rparr>)"
    by (auto simp: flattenStructure_def metric_ab_def fun_eq_iff)
  ultimately show ?thesis by simp
qed

subsection \<open>C6: Errors of Transform\<close>

text \<open>
  C6. A non-nil error returned by \<^verbatim>\<open>Metadata.Transform\<close> or \<^verbatim>\<open>Data.Transform\<close>
  is the error of a \<^verbatim>\<open>Require\<close> rule whose key is nil on a metric of the container,
  or of a \<^verbatim>\<open>Ban\<close> rule whose key is bound to a non-nil value on a metric; it is never
  one of the errors of the flatten step.
\<close>

theorem Transform_error_is_precondition:
  "(Metadata_Transform meta c = Return (Some e) (meta', c') \<longrightarrow>
      ((\<exists>k \<in> set (Metadata.Require meta). e = MissingRequiredMetadata k
          \<and> (\<exists>m \<in> set (Metrics c'). is_nil (index (Metric.Metadata m) k)))
       \<or> (\<exists>k \<in> set (Metadata.Ban meta). e = BannedMetadata k
          \<and> (\<exists>m \<in> set (Metrics c'). \<not> is_nil (index (Metric.Metadata m) k))))
      \<and> e \<noteq> FailedCastToArray \<and> e \<noteq> ExtractNestedFailed)
   \<and> (Data_Transform data c = Return (Some e) (data', c') \<longrightarrow>
      ((\<exists>k \<in> set (Data.Require data). e = MissingRequiredData k
          \<and> (\<exists>m \<in> set (Metrics c'). is_nil (index (Metric.Data m) k)))
       \<or> (\<exists>k \<in> set (Data.Ban data). e = BannedData k
          \<and> (\<exists>m \<in> set (Metrics c'). \<not> is_nil (index (Metric.Data m) k))))
      \<and> e \<noteq> FailedCastToArray \<and> e \<noteq> ExtractNestedFailed)"
proof (intro conjI impI)
  assume a: "Metadata_Transform meta c = Return (Some e) (meta', c')"
  then obtain ms' where ms': "metrics_loop (Metadata_Transform_metric meta) (Metrics c) = Return (Some e) ms'"
    and c': "Metrics c' = ms'"
    by (auto simp: Metadata_Transform_def split: result.splits)
  from metrics_loop_error [OF ms'] obtain m m' where
    "m' \<in> set ms'" "Metadata_Transform_metric meta m = Return (Some e) m'" by blast
  with Metadata_Transform_metric_error [of meta m e m'] c'
  show "(\<exists>k \<in> set (Metadata.Require meta). e = MissingRequiredMetadata k
          \<and> (\<exists>m \<in> set (Metrics c'). is_nil (index (Metric.Metadata m) k)))
       \<or> (\<exists>k \<in> set (Metadata.Ban meta). e = BannedMetadata k
          \<and> (\<exists>m \<in> set (Metrics c'). \<not> is_nil (index (Metric.Metadata m) k)))"
    by blast
  then show "e \<noteq> FailedCastToArray" "e \<noteq> ExtractNestedFailed" by auto
next
  assume a: "Data_Transform data c = Return (Some e) (data', c')"
  define d where "d = (if Data.FlattenSeparator data = ''''
                   then data\<lparr>Data.FlattenSeparator := ''__''\<rparr> else data)"
  have d: "Data.Require d = Data.Require data" "Data.Ban d = Data.Ban data"
    by (simp_all add: d_def)
  from a obtain ms' where ms': "metrics_loop (Data_Transform_metric d) (Metrics c) = Return (Some e) ms'"
    and c': "Metrics c' = ms'"
    by (auto simp: Data_Transform_def d_def Let_def split: result.splits)
  from metrics_loop_error [OF ms'] obtain m m' where
    "m' \<in> set ms'" "Data_Transform_metric d m = Return (Some e) m'" by blast
  with Data_Transform_metric_error [of d m e m'] c' d
  show "(\<exists>k \<in> set (Data.Require data). e = MissingRequiredData k
          \<and> (\<exists>m \<in> set (Metrics c'). is_nil (index (Metric.Data m) k)))
       \<or> (\<exists>k \<in> set (Data.Ban data). e = BannedData k
          \<and> (\<exists>m \<in> set (Metrics c'). \<not> is_nil (index (Metric.Data m) k)))"
    by auto
  then show "e \<noteq> FailedCastToArray" "e \<noteq> ExtractNestedFailed" by auto
qed

theorem Transform_error_is_precondition_witness:
  "Metadata_Transform require_host \<lparr>Template = None, Metrics = [metric_x]\<rparr>
     = Return (Some (MissingRequiredMetadata ''host''))
         (require_host, \<lparr>Template = None, Metrics = [metric_x]\<rparr>)
   \<and> Data_Transform ban_x \<lparr>Template = None, Metrics = [metric_x]\<rparr>
     = Return (Some (BannedData ''x'')) (ban_x, \<lparr>Template = None, Metrics = [metric_x]\<rparr>)
   \<and> ''host'' \<in> set (Metadata.Require require_host)
   \<and> is_nil (index (Metric.Metadata metric_x) ''host'')
   \<and> ''x'' \<in> set (Data.Ban ban_x)
   \<and> \<not> is_nil (index (Metric.Data metric_x) ''x'')"
  using Transform_error_is_precondition [of require_host
      "\<lparr>Template = None, Metrics = [metric_x]\<rparr>" "MissingRequiredMetadata ''host''"
      require_host "\<lparr>Template = None, Metrics = [metric_x]\<rparr>" ban_x ban_x]
    Transform_error_is_precondition [of require_host
      "\<lparr>Template = None, Metrics = [metric_x]\<rparr>" "BannedData ''x''"
      require_host "\<lparr>Template = None, Metrics = [metric_x]\<rparr>" ban_x ban_x]
    require_host_run ban_x_run
  by simp

subsection \<open>C7: Rename with an empty destination\<close>

text \<open>
  C7, as stated, fails: on a metric whose metadata is \<open>{host: "h1"}\<close> the rule with an
  empty destination moves the value to the key \<open>""\<close>, while the rule with destination
  \<open>host\<close> assigns the key to itself and then deletes it.
\<close>

theorem Rename_empty_destination_not_source:
  "Metadata_Transform
     (Metadata_zero\<lparr>Metadata.Rename := [\<lparr>Source = ''host'', Destination = '''', Keep = False\<rparr>]\<rparr>)
     \<lparr>Template = None, Metrics = [metric_host]\<rparr>
   = Return None
       (Metadata_zero\<lparr>Metadata.Rename := [\<lparr>Source = ''host'', Destination = '''', Keep = False\<rparr>]\<rparr>,
        \<lparr>Template = None,
         Metrics = [metric_host\<lparr>Metric.Metadata := Some ['''' \<mapsto> String ''h1'']\<rparr>]\<rparr>)
   \<and> Metadata_Transform
     (Metadata_zero\<lparr>Metadata.Rename := [\<lparr>Source = ''host'', Destination = ''host'', Keep = False\<rparr>]\<rparr>)
     \<lparr>Template = None, Metrics = [metric_host]\<rparr>
   = Return None
       (Metadata_zero\<lparr>Metadata.Rename := [\<lparr>Source = ''host'', Destination = ''host'', Keep = False\<rparr>]\<rparr>,
        \<lparr>Template = None, Metrics = [metric_host\<lparr>Metric.Metadata := Some Map.empty\<rparr>]\<rparr>)
   \<and> Some ['''' \<mapsto> String ''h1''] \<noteq> Some (Map.empty :: string \<rightharpoonup> val)"
  unfolding Metadata_Transform_Rename_only
  by (auto simp: metric_host_def fun_eq_iff)

text \<open>
  C7, amended. \<^verbatim>\<open>Rename\<close> does not default its destination. For a key \<open>s\<close> other than
  the empty string and a metric whose map binds \<open>s\<close> to \<open>v\<close>, the rule
  \<^verbatim>\<open>{source: s, destination: "", keep: false}\<close>, alone in the transformer, succeeds,
  binds the key \<open>""\<close> to \<open>v\<close> and removes \<open>s\<close>; this holds for the metadata map under
  \<^verbatim>\<open>Metadata.Transform\<close> and for the data map under \<^verbatim>\<open>Data.Transform\<close>.
\<close>

theorem Rename_empty_destination_moves:
  assumes "s \<noteq> ''''" and "i < length (Metrics c)"
  shows "(index (Metric.Metadata (Metrics c ! i)) s = Some v \<longrightarrow>
          (\<exists>meta' c'. Metadata_Transform
               (Metadata_zero\<lparr>Metadata.Rename := [\<lparr>Source = s, Destination = '''', Keep = False\<rparr>]\<rparr>) c
             = Return None (meta', c')
           \<and> length (Metrics c') = length (Metrics c)
           \<and> index (Metric.Metadata (Metrics c' ! i)) '''' = Some v
           \<and> index (Metric.Metadata (Metrics c' ! i)) s = None))
       \<and> (index (Metric.Data (Metrics c ! i)) s = Some v \<longrightarrow>
          (\<exists>data' c'. Data_Transform
               (Data_zero\<lparr>Data.Rename := [\<lparr>Source = s, Destination = '''', Keep = False\<rparr>]\<rparr>) c
             = Return None (data', c')
           \<and> length (Metrics c') = length (Metrics c)
           \<and> index (Metric.Data (Metrics c' ! i)) '''' = Some v
           \<and> index (Metric.Data (Metrics c' ! i)) s = None))"
  unfolding Metadata_Transform_Rename_only Data_Transform_Rename_only rename_loop_single
  using assms by (auto split: option.splits)

theorem Rename_empty_destination_moves_witness:
  "''host'' \<noteq> '''' \<and> 0 < length (Metrics \<lparr>Template = None, Metrics = [metric_host]\<rparr>)
   \<and> index (Metric.Metadata (Metrics \<lparr>Template = None, Metrics = [metric_host]\<rparr> ! 0)) ''host''
       = Some (String ''h1'')
   \<and> index (Metric.Data (Metrics \<lparr>Template = None, Metrics = [metric_host]\<rparr> ! 0)) ''host''
       = Some (String ''h1'')
   \<and> (\<exists>meta' c'. Metadata_Transform
               (Metadata_zero\<lparr>Metadata.Rename := [\<lparr>Source = ''host'', Destination = '''', Keep = False\<rparr>]\<rparr>)
               \<lparr>Template = None, Metrics = [metric_host]\<rparr>
             = Return None (meta', c')
           \<and> index (Metric.Metadata (Metrics c' ! 0)) '''' = Some (String ''h1'')
           \<and> index (Metric.Metadata (Metrics c' ! 0)) ''host'' = None)
   \<and> (\<exists>data' c'. Data_Transform
               (Data_zero\<lparr>Data.Rename := [\<lparr>Source = ''host'', Destination = '''', Keep = False\<rparr>]\<rparr>)
               \<lparr>Template = None, Metrics = [metric_host]\<rparr>
             = Return None (data', c')
           \<and> index (Metric.Data (Metrics c' ! 0)) '''' = Some (String ''h1'')
           \<and> index (Metric.Data (Metrics c' ! 0)) ''host'' = None)"
proof -
  have h1: "''host'' \<noteq> ''''" by simp
  have h2: "0 < length (Metrics \<lparr>Template = None, Metrics = [metric_host]\<rparr>)" by simp
  have h3: "index (Metric.Metadata (Metrics \<lparr>Template = None, Metrics = [metric_host]\<rparr> ! 0)) ''host''
       = Some (String ''h1'')" by (simp add: metric_host_def)
  have h4: "index (Metric.Data (Metrics \<lparr>Template = None, Metrics = [metric_host]\<rparr> ! 0)) ''host''
       = Some (String ''h1'')" by (simp add: metric_host_def)
  from Rename_empty_destination_moves [OF h1 h2, of "String ''h1''"] h3 h4
  have "(\<exists>meta' c'. Metadata_Transform
               (Metadata_zero\<lparr>Metadata.Rename := [\<lparr>Source = ''host'', Destination = '''', Keep = False\<rparr>]\<rparr>)
               \<lparr>Template = None, Metrics = [metric_host]\<rparr>
             = Return None (meta', c')
           \<and> index (Metric.Metadata (Metrics c' ! 0)) '''' = Some (String ''h1'')
           \<and> index (Metric.Metadata (Metrics c' ! 0)) ''host'' = None)
   \<and> (\<exists>data' c'. Data_Transform
               (Data_zero\<lparr>Data.Rename := [\<lparr>Source = ''host'', Destination = '''', Keep = False\<rparr>]\<rparr>)
               \<lparr>Template = None, Metrics = [metric_host]\<rparr>
             = Return None (data', c')
           \<and> index (Metric.Data (Metrics c' ! 0)) '''' = Some (String ''h1'')
           \<and> index (Metric.Data (Metrics c' ! 0)) ''host'' = None)"
    by blast
  with h1 h2 h3 h4 show ?thesis by blast
qed

subsection \<open>C8: ExtractFromData and CopyFromData\<close>

text \<open>
  C8. \<^verbatim>\<open>Metadata.Transform\<close> with \<^verbatim>\<open>ExtractFromData = [s]\<close> and
  \<^verbatim>\<open>Metadata.Transform\<close> with \<^verbatim>\<open>CopyFromData = [{source: s, destination: "",
  keep: false}]\<close>, all other fields alike, return the same error and leave the same
  container (or both panic).
\<close>

theorem ExtractFromData_is_CopyFromData:
  "map_result snd (Metadata_Transform (meta\<lparr>ExtractFromData := [s], CopyFromData := []\<rparr>) c)
   = map_result snd
       (Metadata_Transform
          (meta\<lparr>ExtractFromData := [],
                CopyFromData := [\<lparr>Source = s, Destination = '''', Keep = False\<rparr>]\<rparr>) c)"
proof -
  have "Metadata_Transform_metric (meta\<lparr>ExtractFromData := [s], CopyFromData := []\<rparr>) m
      = Metadata_Transform_metric
          (meta\<lparr>ExtractFromData := [],
                CopyFromData := [\<lparr>Source = s, Destination = '''', Keep = False\<rparr>]\<rparr>) m" for m
    by (simp add: Metadata_Transform_metric_def extract_is_copy Let_def
        del: extract_loop.simps(2) copy_loop.simps(2) split: option.splits)
  then have "Metadata_Transform_metric (meta\<lparr>ExtractFromData := [s], CopyFromData := []\<rparr>)
      = Metadata_Transform_metric
          (meta\<lparr>ExtractFromData := [],
                CopyFromData := [\<lparr>Source = s, Destination = '''', Keep = False\<rparr>]\<rparr>)"
    by (rule ext)
  then show ?thesis
    by (simp add: Metadata_Transform_def split: result.splits)
qed

subsection \<open>C9: The transformer instance\<close>

text \<open>
  C9, as stated, fails: \<^verbatim>\<open>Data.Transform\<close> on a transformer whose
  \<^verbatim>\<open>FlattenSeparator\<close> is unset stores the default in the transformer.
\<close>

theorem Data_Transform_sets_separator:
  "Data_Transform flatten_a \<lparr>Template = None, Metrics = []\<rparr>
     = Return None (flatten_a\<lparr>Data.FlattenSeparator := ''__''\<rparr>, \<lparr>Template = None, Metrics = []\<rparr>)
   \<and> Data.FlattenSeparator (flatten_a\<lparr>Data.FlattenSeparator := ''__''\<rparr>)
       \<noteq> Data.FlattenSeparator flatten_a"
  by (simp add: Data_Transform_def flatten_a_def)

text \<open>
  C9, amended. \<^verbatim>\<open>Metadata.Transform\<close> leaves every field of its transformer
  unchanged. \<^verbatim>\<open>Data.Transform\<close> leaves every field of its transformer unchanged
  except \<^verbatim>\<open>FlattenSeparator\<close>, which it sets to \<^verbatim>\<open>"__"\<close> when it was empty and
  leaves unchanged otherwise. This is stated of the embedding in which every loop has the
  transformer in its state: no loop assigns a field of it, and the destination that the
  \<^verbatim>\<open>CopyFromData\<close> loop defaults is that of its range variable.
\<close>

theorem Transform_receiver_frame:
  "(Metadata_Transform_rcv meta c = Return e (meta', c') \<longrightarrow> meta' = meta)
   \<and> (Data_Transform_rcv data c = Return e (data', c') \<longrightarrow>
        data' = data\<lparr>Data.FlattenSeparator :=
                  (if Data.FlattenSeparator data = '''' then ''__''
                   else Data.FlattenSeparator data)\<rparr>)"
proof (intro conjI impI)
  assume "Metadata_Transform_rcv meta c = Return e (meta', c')"
  then obtain ms where "Metadata_Metrics_rcv (Metrics c) meta = Return e (meta', ms)"
    by (auto simp: Metadata_Transform_rcv_def split: result.splits)
  then show "meta' = meta"
    unfolding Metadata_Metrics_rcv_eq
    by (cases "metrics_loop (Metadata_Transform_metric meta) (Metrics c)") auto
next
  define data1 where "data1 = (if Data.FlattenSeparator data = ''''
                   then data\<lparr>Data.FlattenSeparator := ''__''\<rparr> else data)"
  assume "Data_Transform_rcv data c = Return e (data', c')"
  then obtain ms where "Data_Metrics_rcv (Metrics c) data1 = Return e (data', ms)"
    by (auto simp: Data_Transform_rcv_def data1_def Let_def split: result.splits)
  then have "data' = data1"
    unfolding Data_Metrics_rcv_eq
    by (cases "metrics_loop (Data_Transform_metric data1) (Metrics c)") auto
  then show "data' = data\<lparr>Data.FlattenSeparator :=
                  (if Data.FlattenSeparator data = '''' then ''__''
                   else Data.FlattenSeparator data)\<rparr>"
    by (simp add: data1_def)
qed

theorem Transform_receiver_frame_witness:
  "Metadata_Transform_rcv copy_default \<lparr>Template = None, Metrics = [metric_host]\<rparr>
     = Return None (copy_default, \<lparr>Template = None,
         Metrics = [metric_host\<lparr>Metric.Data := Some [''v'' \<mapsto> Number 42]\<rparr>]\<rparr>)
   \<and> CopyFromData copy_default = [\<lparr>Source = ''host'', Destination = '''', Keep = False\<rparr>]
   \<and> Data_Transform_rcv flatten_a \<lparr>Template = None, Metrics = [metric_ab]\<rparr>
     = Return None (flatten_a\<lparr>Data.FlattenSeparator := ''__''\<rparr>, \<lparr>Template = None,
         Metrics = [metric_ab\<lparr>Metric.Data :=
                      Some [''a__b'' \<mapsto> Number 1, ''a__c'' \<mapsto> Number 2]\<rparr>]\<rparr>)
   \<and> Data.FlattenSeparator flatten_a = ''''
   \<and> flatten_a\<lparr>Data.FlattenSeparator := ''__''\<rparr>
       = flatten_a\<lparr>Data.FlattenSeparator :=
           (if Data.FlattenSeparator flatten_a = '''' then ''__''
            else Data.FlattenSeparator flatten_a)\<rparr>"
  using Transform_receiver_frame [of copy_default "\<lparr>Template = None, Metrics = [metric_host]\<rparr>"
      None copy_default
      "\<lparr>Template = None, Metrics = [metric_host\<lparr>Metric.Data := Some [''v'' \<mapsto> Number 42]\<rparr>]\<rparr>"
      flatten_a "flatten_a\<lparr>Data.FlattenSeparator := ''__''\<rparr>"]
    Transform_receiver_frame [of copy_default "\<lparr>Template = None, Metrics = [metric_ab]\<rparr>"
      None copy_default
      "\<lparr>Template = None, Metrics = [metric_ab\<lparr>Metric.Data :=
                      Some [''a__b'' \<mapsto> Number 1, ''a__c'' \<mapsto> Number 2]\<rparr>]\<rparr>"
      flatten_a "flatten_a\<lparr>Data.FlattenSeparator := ''__''\<rparr>"]
    copy_default_run flatten_a_run
  by (simp add: copy_default_def Metadata_zero_def flatten_a_def)

subsection \<open>C10: Rename applied twice\<close>

text \<open>
  C10. For distinct keys \<open>s\<close> and \<open>d\<close>, \<^verbatim>\<open>Metadata.Transform\<close> with
  \<^verbatim>\<open>Rename = [{source: s, destination: d, keep: false}]\<close> and no other rule succeeds on
  every container, and applied to the container it has left it succeeds again and
  leaves that container as it is.
\<close>

theorem Rename_twice_is_once:
  assumes "d \<noteq> s"
  shows "\<exists>c1. Metadata_Transform
                (Metadata_zero\<lparr>Metadata.Rename := [\<lparr>Source = s, Destination = d, Keep = False\<rparr>]\<rparr>) c
              = Return None
                  (Metadata_zero\<lparr>Metadata.Rename := [\<lparr>Source = s, Destination = d, Keep = False\<rparr>]\<rparr>, c1)
            \<and> Metadata_Transform
                (Metadata_zero\<lparr>Metadata.Rename := [\<lparr>Source = s, Destination = d, Keep = False\<rparr>]\<rparr>) c1
              = Return None
                  (Metadata_zero\<lparr>Metadata.Rename := [\<lparr>Source = s, Destination = d, Keep = False\<rparr>]\<rparr>, c1)"
  unfolding Metadata_Transform_Rename_only
  by (simp add: rename_loop_twice o_def del: rename_loop.simps)

theorem Rename_twice_is_once_witness:
  "''node'' \<noteq> ''host''
   \<and> (\<exists>c1. Metadata_Transform
                (Metadata_zero\<lparr>Metadata.Rename :=
                   [\<lparr>Source = ''host'', Destination = ''node'', Keep = False\<rparr>]\<rparr>)
                \<lparr>Template = None, Metrics = [metric_host]\<rparr>
              = Return None
                  (Metadata_zero\<lparr>Metadata.Rename :=
                     [\<lparr>Source = ''host'', Destination = ''node'', Keep = False\<rparr>]\<rparr>, c1)
            \<and> Metadata_Transform
                (Metadata_zero\<lparr>Metadata.Rename :=
                   [\<lparr>Source = ''host'', Destination = ''node'', Keep = False\<rparr>]\<rparr>) c1
              = Return None
                  (Metadata_zero\<lparr>Metadata.Rename :=
                     [\<lparr>Source = ''host'', Destination = ''node'', Keep = False\<rparr>]\<rparr>, c1))"
proof -
  have h: "''node'' \<noteq> ''host''" by simp
  show ?thesis
    using h Rename_twice_is_once [OF h, of "\<lparr>Template = None, Metrics = [metric_host]\<rparr>"]
    by simp
qed

end
